theory Spec2Isabelle
  imports Main "HOL-Library.Word" "HOL-Library.State_Monad"
begin

unbundle bit_operations_syntax

section \<open>Values of the program\<close>

text \<open>
  The admin-chat handler of \<^verbatim>\<open>app/events/admin.go\<close>. Go strings are byte strings:
  \<^typ>\<open>string\<close> is a list of bytes, \<open>len\<close> is \<^const>\<open>length\<close>. \<^verbatim>\<open>int64\<close> is a 64-bit
  word read as two's complement (\<^const>\<open>sint\<close>); Go's \<^verbatim>\<open>int\<close> is taken as 64 bits wide
  (amd64 and arm64 builds).
\<close>

type_synonym int64 = "64 word"
type_synonym goint = "64 word"

datatype strconvErr = ErrSyntax | ErrRange

text \<open>
  Go \<^verbatim>\<open>error\<close> values. \<open>Errorf fmt args cause\<close> is \<^verbatim>\<open>fmt.Errorf(fmt, args..., cause)\<close> with the
  format string of the source, its printed arguments and the error wrapped by \<^verbatim>\<open>%w\<close>;
  \<open>ErrorsNew\<close> is \<^verbatim>\<open>errors.New\<close>; \<open>NumError\<close> is \<^verbatim>\<open>*strconv.NumError\<close>;
  \<open>MultiError\<close> is the non-nil \<^verbatim>\<open>*multierror.Error\<close> with its list of errors;
  \<open>External\<close> is an error value handed back by a collaborator.
\<close>

datatype error =
    External string
  | ErrorsNew string
  | NumError string string strconvErr
  | Errorf string "string list" "error option"
  | MultiError "error list"

text \<open>
  What a Go function call comes to: it returns a value, returns an error, or panics
  (a run-time panic unwinds through every caller in this file: none recovers).
\<close>

datatype 'a result = Ok 'a | Err error | Panic

section \<open>Library functions used by the handler\<close>

text \<open>\<^verbatim>\<open>strings.Split(s, sep)\<close> for a separator of one byte (the source uses newline and colon).\<close>

fun strings_Split :: "string \<Rightarrow> char \<Rightarrow> string list" where
  "strings_Split [] sep = [[]]"
| "strings_Split (c # cs) sep =
     (if c = sep then [] # strings_Split cs sep
      else (case strings_Split cs sep of
              [] \<Rightarrow> [[c]]
            | p # ps \<Rightarrow> (c # p) # ps))"

text \<open>\<^verbatim>\<open>strings.Join(elems, sep)\<close>.\<close>

fun strings_Join :: "string list \<Rightarrow> string \<Rightarrow> string" where
  "strings_Join [] sep = []"
| "strings_Join [x] sep = x"
| "strings_Join (x # y # ys) sep = x @ sep @ strings_Join (y # ys) sep"

text \<open>\<^verbatim>\<open>strings.HasPrefix(s, prefix)\<close>: \<^verbatim>\<open>len(s) >= len(prefix) && s[:len(prefix)] == prefix\<close>.\<close>

definition strings_HasPrefix :: "string \<Rightarrow> string \<Rightarrow> bool" where
  "strings_HasPrefix s p \<longleftrightarrow> length p \<le> length s \<and> take (length p) s = p"

text \<open>
  The slice expression \<^verbatim>\<open>xs[lo:hi]\<close> on a slice whose capacity is its length (what
  \<^verbatim>\<open>strings.Split\<close> returns): it panics unless \<open>0 \<le> lo \<le> hi \<le> len(xs)\<close>. \<open>None\<close> is the panic.
\<close>

definition slice :: "'a list \<Rightarrow> int \<Rightarrow> int \<Rightarrow> 'a list option" where
  "slice xs lo hi =
     (if 0 \<le> lo \<and> lo \<le> hi \<and> hi \<le> int (length xs)
      then Some (take (nat hi - nat lo) (drop (nat lo) xs))
      else None)"

section \<open>getCleanMessage\<close>

text \<open>
  The loop of \<^verbatim>\<open>getCleanMessage\<close>: \<open>i\<close> is the index of the head of the remaining lines,
  \<open>spamInfoLine\<close> the value the variable holds before the loop (\<^verbatim>\<open>len(msgLines)\<close>). The first
  line with the marker as prefix sets it to \<open>i - 1\<close> and breaks.
\<close>

fun findSpamInfoLine :: "string list \<Rightarrow> int \<Rightarrow> int \<Rightarrow> int" where
  "findSpamInfoLine [] i spamInfoLine = spamInfoLine"
| "findSpamInfoLine (line # rest) i spamInfoLine =
     (if strings_HasPrefix line ''spam detection results'' then i - 1
      else findSpamInfoLine rest (i + 1) spamInfoLine)"

definition getCleanMessage :: "string \<Rightarrow> string result" where
  "getCleanMessage msg =
     (let msgLines = strings_Split msg (CHR ''\<newline>'') in
      if length msgLines < 2
      then Err (Errorf ''unexpected message from callback msgsData: %q'' [msg] None)
      else
        let spamInfoLine = findSpamInfoLine msgLines 0 (int (length msgLines)) in
        case slice msgLines 2 spamInfoLine of
          None \<Rightarrow> Panic
        | Some ls \<Rightarrow> Ok (strings_Join ls ''\<newline>''))"

section \<open>Printing and parsing integers\<close>

text \<open>
  The verb \<^verbatim>\<open>%d\<close> of \<^verbatim>\<open>fmt.Sprintf\<close> on a signed integer: the decimal digits of the
  magnitude, most significant first, after a minus sign when the value is negative.
\<close>

definition digit_char :: "nat \<Rightarrow> char" where
  "digit_char d = char_of (of_char (CHR ''0'') + d)"

fun fmt_nat :: "nat \<Rightarrow> string" where
  "fmt_nat n = (if n < 10 then [digit_char n] else fmt_nat (n div 10) @ [digit_char (n mod 10)])"

declare fmt_nat.simps [simp del]

definition fmt_d :: "int \<Rightarrow> string" where
  "fmt_d i = (if i < 0 then CHR ''-'' # fmt_nat (nat (- i)) else fmt_nat (nat i))"

text \<open>
  \<^verbatim>\<open>strconv.ParseUint(s, 10, 64)\<close>. \<open>lower\<close> is \<^verbatim>\<open>c | ('x' - 'X')\<close>; \<open>digitValue\<close> is the
  switch that reads one byte as a digit (the underscore case needs base 0 and is never
  taken here); the loop fails with \<open>ErrSyntax\<close> on a byte that is no digit below the base and
  with \<open>ErrRange\<close> when the 64-bit accumulator would overflow.
\<close>

definition lower :: "nat \<Rightarrow> nat" where
  "lower c = c OR 32"

definition digitValue :: "char \<Rightarrow> nat option" where
  "digitValue c =
     (let b = (of_char c :: nat) in
      if of_char (CHR ''0'') \<le> b \<and> b \<le> of_char (CHR ''9'') then Some (b - of_char (CHR ''0''))
      else if of_char (CHR ''a'') \<le> lower b \<and> lower b \<le> of_char (CHR ''z'')
      then Some (lower b - of_char (CHR ''a'') + 10)
      else None)"

definition maxUint64 :: nat where
  "maxUint64 = 2 ^ 64 - 1"

fun ParseUint_loop :: "string \<Rightarrow> nat \<Rightarrow> strconvErr + nat" where
  "ParseUint_loop [] n = Inr n"
| "ParseUint_loop (c # cs) n =
     (case digitValue c of
        None \<Rightarrow> Inl ErrSyntax
      | Some d \<Rightarrow>
          if d \<ge> 10 then Inl ErrSyntax
          else if n \<ge> maxUint64 div 10 + 1 then Inl ErrRange
          else
            let n10 = n * 10;
                n1 = (n10 + d) mod 2 ^ 64
            in if n1 < n10 \<or> n1 > maxUint64 then Inl ErrRange
               else ParseUint_loop cs n1)"

definition strconv_ParseUint :: "string \<Rightarrow> strconvErr + nat" where
  "strconv_ParseUint s = (if s = [] then Inl ErrSyntax else ParseUint_loop s 0)"

text \<open>
  \<^verbatim>\<open>strconv.ParseInt(s, 10, 64)\<close>: an optional sign, then \<^verbatim>\<open>ParseUint\<close>, then the range check
  against \<open>2 ^ 63\<close>. The result is the value of the \<^verbatim>\<open>int64\<close> returned.
\<close>

definition strconv_ParseInt :: "string \<Rightarrow> strconvErr + int" where
  "strconv_ParseInt s0 =
     (if s0 = [] then Inl ErrSyntax
      else
        let neg = (hd s0 = CHR ''-'');
            s = (if hd s0 = CHR ''+'' \<or> hd s0 = CHR ''-'' then tl s0 else s0)
        in case strconv_ParseUint s of
             Inl e \<Rightarrow> Inl e
           | Inr un \<Rightarrow>
               if \<not> neg \<and> un \<ge> 2 ^ 63 then Inl ErrRange
               else if neg \<and> un > 2 ^ 63 then Inl ErrRange
               else Inr (if neg then - int un else int un))"

text \<open>\<^verbatim>\<open>strconv.Atoi(s)\<close> is \<^verbatim>\<open>ParseInt(s, 10, 0)\<close> converted to \<^verbatim>\<open>int\<close>, here 64 bits wide.\<close>

definition strconv_Atoi :: "string \<Rightarrow> strconvErr + int" where
  "strconv_Atoi s = strconv_ParseInt s"

section \<open>The callback payload\<close>

definition confirmationPrefix :: string where
  "confirmationPrefix = ''?''"

definition banPrefix :: string where
  "banPrefix = ''+''"

definition infoPrefix :: string where
  "infoPrefix = ''!''"

text \<open>
  \<^verbatim>\<open>parseCallbackData\<close>. The length check is on the data as received, before the prefix is
  removed; \<^verbatim>\<open>data[:1]\<close> and \<^verbatim>\<open>data[1:]\<close> are in range after it. \<open>trimPrefix\<close> is the
  statement that removes a prefix when one is present.
\<close>

definition trimPrefix :: "string \<Rightarrow> string" where
  "trimPrefix data =
     (if take 1 data = confirmationPrefix \<or> take 1 data = banPrefix \<or> take 1 data = infoPrefix
      then drop 1 data else data)"

definition parseCallbackData :: "string \<Rightarrow> (int64 \<times> goint) result" where
  "parseCallbackData data0 =
     (if length data0 < 3
      then Err (Errorf ''unexpected callback data, too short %q'' [data0] None)
      else
        let data = trimPrefix data0;
            parts = strings_Split data (CHR '':'')
        in if length parts \<noteq> 2
           then Err (Errorf ''unexpected callback data, should have both ids %q'' [data] None)
           else
             case strconv_ParseInt (parts ! 0) of
               Inl e \<Rightarrow> Err (Errorf ''failed to parse userID %q: %w'' [parts ! 0]
                               (Some (NumError ''ParseInt'' (parts ! 0) e)))
             | Inr userID \<Rightarrow>
                 (case strconv_Atoi (parts ! 1) of
                    Inl e \<Rightarrow> Err (Errorf ''failed to parse msgID %q: %w'' [parts ! 1]
                                    (Some (NumError ''Atoi'' (parts ! 1) e)))
                  | Inr msgID \<Rightarrow> Ok (word_of_int userID, word_of_int msgID)))"

text \<open>
  The four branches of \<^verbatim>\<open>InlineCallbackHandler\<close>, in the order of its prefix tests:
  \<^verbatim>\<open>callbackAskBanConfirmation\<close>, \<^verbatim>\<open>callbackBanConfirmed\<close>, \<^verbatim>\<open>callbackShowInfo\<close> and, with no
  prefix, \<^verbatim>\<open>callbackUnbanConfirmed\<close>.
\<close>

datatype action = AskConfirm | ConfirmBan | ShowInfo | Unban

definition callbackAction :: "string \<Rightarrow> action" where
  "callbackAction callbackData =
     (if strings_HasPrefix callbackData confirmationPrefix then AskConfirm
      else if strings_HasPrefix callbackData banPrefix then ConfirmBan
      else if strings_HasPrefix callbackData infoPrefix then ShowInfo
      else Unban)"

text \<open>
  Decoding a payload: the branch \<^verbatim>\<open>InlineCallbackHandler\<close> takes on it together with the ids
  \<^verbatim>\<open>parseCallbackData\<close> reads from it.
\<close>

definition decode :: "string \<Rightarrow> (action \<times> int64 \<times> goint) result" where
  "decode callbackData =
     (case parseCallbackData callbackData of
        Ok (userID, msgID) \<Rightarrow> Ok (callbackAction callbackData, userID, msgID)
      | Err e \<Rightarrow> Err e
      | Panic \<Rightarrow> Panic)"

text \<open>
  The button data the source builds. \<^verbatim>\<open>sendWithUnbanMarkup\<close> prints
  \<^verbatim>\<open>fmt.Sprintf("%s%d:%d", prefix, user.ID, msgID)\<close> with the confirmation and the info
  prefix; \<^verbatim>\<open>callbackAskBanConfirmation\<close> derives from the data it received the data of its
  two buttons, \<^verbatim>\<open>callbackData[1:]\<close> and \<^verbatim>\<open>banPrefix + callbackData[1:]\<close>.
\<close>

definition sprintf_payload :: "string \<Rightarrow> int64 \<Rightarrow> goint \<Rightarrow> string" where
  "sprintf_payload prefix userID msgID = prefix @ fmt_d (sint userID) @ '':'' @ fmt_d (sint msgID)"

definition unbanButtonData :: "string \<Rightarrow> string" where
  "unbanButtonData callbackData = drop 1 callbackData"

definition keepBannedButtonData :: "string \<Rightarrow> string" where
  "keepBannedButtonData callbackData = banPrefix @ drop 1 callbackData"

text \<open>
  The payload of an action: the data of the button that leads to it. The two buttons of
  the report carry the printed payload; the two buttons of the confirmation dialog are
  derived from the payload of the button pressed to open it.
\<close>

fun encode :: "action \<Rightarrow> int64 \<Rightarrow> goint \<Rightarrow> string" where
  "encode AskConfirm userID msgID = sprintf_payload confirmationPrefix userID msgID"
| "encode ShowInfo userID msgID = sprintf_payload infoPrefix userID msgID"
| "encode Unban userID msgID =
     unbanButtonData (sprintf_payload confirmationPrefix userID msgID)"
| "encode ConfirmBan userID msgID =
     keepBannedButtonData (sprintf_payload confirmationPrefix userID msgID)"

section \<open>Decimal integers\<close>

text \<open>
  What it is for a string to be a decimal integer in the range of \<^verbatim>\<open>int64\<close>, written without
  the parser: an optional sign, then one or more ASCII digits, whose value is at most
  \<open>2 ^ 63 - 1\<close>, or \<open>2 ^ 63\<close> after a minus sign. \<open>decimalInt64\<close> gives the value.
\<close>

definition isDigit :: "char \<Rightarrow> bool" where
  "isDigit c \<longleftrightarrow> (of_char (CHR ''0'') :: nat) \<le> of_char c \<and> (of_char c :: nat) \<le> of_char (CHR ''9'')"

fun decimalValue :: "string \<Rightarrow> nat \<Rightarrow> nat" where
  "decimalValue [] a = a"
| "decimalValue (c # cs) a = decimalValue cs (a * 10 + (of_char c - of_char (CHR ''0'')))"

definition decimalInt64 :: "string \<Rightarrow> int option" where
  "decimalInt64 s =
     (let neg = (s \<noteq> [] \<and> hd s = CHR ''-'');
          body = (if s \<noteq> [] \<and> (hd s = CHR ''+'' \<or> hd s = CHR ''-'') then tl s else s);
          v = int (decimalValue body 0)
      in if body \<noteq> [] \<and> (\<forall>c \<in> set body. isDigit c) \<and> (if neg then v \<le> 2 ^ 63 else v < 2 ^ 63)
         then Some (if neg then - v else v)
         else None)"

section \<open>The handler, its messages and its collaborators\<close>

text \<open>
  The configuration fields of the \<^verbatim>\<open>admin\<close> struct. Its four handles (\<^verbatim>\<open>tbAPI\<close>, \<^verbatim>\<open>bot\<close>,
  \<^verbatim>\<open>locator\<close>, \<^verbatim>\<open>superUsers\<close>) are the collaborators below.
\<close>

record admin =
  primChatID :: int64
  adminChatID :: int64
  trainingMode :: bool
  dry :: bool

datatype banDuration = PermanentBanDuration

text \<open>The \<^verbatim>\<open>banRequest\<close> struct, as far as this file fills it.\<close>

record banRequest =
  br_duration :: banDuration
  br_userID :: int64
  br_chatID :: int64
  br_dry :: bool
  br_training :: bool

text \<open>The record \<^verbatim>\<open>locator.Message\<close> finds: the fields the handler reads.\<close>

record msgInfo =
  UserID :: int64
  UserName :: string
  MsgID :: goint

datatype button = InlineKeyboardButtonData string string

type_synonym keyboard = "button list list"

text \<open>
  The requests handed to the transport. \<open>MessageConfig chat text\<close> is
  \<^verbatim>\<open>tbapi.NewMessage\<close>; \<open>MessageConfigMarkup\<close> is the same with markdown, no web preview and
  a reply markup; \<open>EditMessageTextConfig chat msg text markup mode\<close> and
  \<open>EditMessageReplyMarkupConfig chat msg markup\<close> edit a message;
  \<open>DeleteMessageConfig chat msg\<close> deletes one; \<open>UnbanChatMemberConfig user chat\<close>
  lifts a ban; \<open>CallbackConfig id text\<close> is \<^verbatim>\<open>tbapi.NewCallback\<close>.
\<close>

datatype chattable =
    MessageConfig int64 string
  | MessageConfigMarkup int64 string keyboard
  | EditMessageTextConfig int64 goint string keyboard string
  | EditMessageReplyMarkupConfig int64 goint keyboard
  | DeleteMessageConfig int64 goint
  | UnbanChatMemberConfig int64 int64
  | CallbackConfig string string

text \<open>
  The message of an update or of a callback query (\<^verbatim>\<open>Chat.ID\<close> is \<open>ChatID\<close>; \<open>ForwardFrom\<close>
  and \<open>ReplyMarkup\<close> are pointers, \<open>None\<close> when nil), and the callback query
  (\<^verbatim>\<open>From.UserName\<close> is \<open>FromUserName\<close>). The pointers \<^verbatim>\<open>update.Message\<close>, \<^verbatim>\<open>Message.From\<close>,
  \<^verbatim>\<open>query.Message\<close> and \<^verbatim>\<open>query.From\<close> are taken to be non-nil, as the handler takes them.
\<close>

record tgMessage =
  MessageID :: goint
  ChatID :: int64
  Text :: string
  Date :: goint
  ForwardSenderName :: string
  ForwardFrom :: "int64 option"
  ReplyMarkup :: "keyboard option"

record callbackQuery =
  QueryID :: string
  Data :: string
  FromUserName :: string
  Message :: tgMessage

text \<open>
  Every call the handler makes out of this file, in the order it makes them: the methods of
  the locator, of the super-user list and of the bot, the transport's \<^verbatim>\<open>Send\<close> and
  \<^verbatim>\<open>Request\<close>, and the package's helpers \<^verbatim>\<open>send\<close> and \<^verbatim>\<open>banUserOrChannel\<close>, which are
  defined outside this file and called here with the transport handle.
\<close>

datatype call =
    Locator_Message string
  | Locator_Spam int64
  | Locator_UserNameByID int64
  | SuperUsers_IsSuper string
  | Bot_OnMessage string int64
  | Bot_RemoveApprovedUser int64
  | Bot_AddApprovedUser int64 string
  | Bot_UpdateSpam string
  | Bot_UpdateHam string
  | Helper_send chattable
  | TbAPI_Send chattable
  | TbAPI_Request chattable
  | BanUserOrChannel banRequest

text \<open>
  The calls that change something outside the handler: every call but the look-ups of the
  locator and of the super-user list and the classification \<^verbatim>\<open>bot.OnMessage\<close>.
\<close>

fun mutation :: "call \<Rightarrow> bool" where
  "mutation (Locator_Message _) = False"
| "mutation (Locator_Spam _) = False"
| "mutation (Locator_UserNameByID _) = False"
| "mutation (SuperUsers_IsSuper _) = False"
| "mutation (Bot_OnMessage _ _) = False"
| "mutation _ = True"

text \<open>The calls that send or edit a message of the admin chat.\<close>

fun sends :: "call \<Rightarrow> bool" where
  "sends (Helper_send _) = True"
| "sends (TbAPI_Send _) = True"
| "sends _ = False"

text \<open>
  What the collaborators answer. The look-ups answer with a value; every other call answers
  with an error or nil (\<open>outcome\<close>; no handler makes the same call twice, so an answer per
  call covers every behaviour). The checks of a spam record or of a response are given as
  the strings \<^verbatim>\<open>check.String()\<close> prints. The remaining fields are functions the handler
  uses that are defined outside this file or read the clock: \<^verbatim>\<open>escapeMarkDownV1Text\<close>, the
  verb \<^verbatim>\<open>%q\<close>, \<^verbatim>\<open>err.Error()\<close>, the rounded time since a date as \<^verbatim>\<open>%v\<close> prints it,
  \<^verbatim>\<open>utf8.RuneCountInString\<close>, the first runes of a string, and the first submatch of
  the two regular expressions of \<^verbatim>\<open>extractUsername\<close> (\<open>None\<close>: no match).
\<close>

record world =
  locator_Message :: "string \<Rightarrow> msgInfo option"
  locator_Spam :: "int64 \<Rightarrow> string list option"
  locator_UserNameByID :: "int64 \<Rightarrow> string"
  superUsers_IsSuper :: "string \<Rightarrow> bool"
  bot_OnMessage :: "string \<Rightarrow> int64 \<Rightarrow> string list"
  outcome :: "call \<Rightarrow> error option"
  escapeMarkDownV1Text :: "string \<Rightarrow> string"
  fmt_q :: "string \<Rightarrow> string"
  error_text :: "error \<Rightarrow> string"
  since :: "goint \<Rightarrow> string"
  utf8_RuneCountInString :: "string \<Rightarrow> nat"
  first_runes :: "string \<Rightarrow> nat \<Rightarrow> string"
  markdownRegex_submatch :: "string \<Rightarrow> string option"
  plainRegex_submatch :: "string \<Rightarrow> string option"

text \<open>
  A handler is a computation over the trace of the calls made so far: \<open>lookup\<close> records a
  call and hands back the value the collaborator answers, \<open>perform\<close> records a call and
  hands back the error it answers with.
\<close>

type_synonym 'a handler = "(call list, 'a) state"

definition lookup :: "call \<Rightarrow> 'a \<Rightarrow> 'a handler" where
  "lookup c v = State (\<lambda>trace. (v, trace @ [c]))"

definition perform :: "world \<Rightarrow> call \<Rightarrow> (error option) handler" where
  "perform w c = State (\<lambda>trace. (outcome w c, trace @ [c]))"

text \<open>The result and the trace of a handler started with no call made.\<close>

definition result_of :: "'a handler \<Rightarrow> 'a" where
  "result_of h = fst (run_state h [])"

definition trace_of :: "'a handler \<Rightarrow> call list" where
  "trace_of h = snd (run_state h [])"

text \<open>\<^verbatim>\<open>errs.ErrorOrNil()\<close> of a \<^verbatim>\<open>*multierror.Error\<close> holding the errors \<open>errs\<close>.\<close>

definition ErrorOrNil :: "error list \<Rightarrow> unit result" where
  "ErrorOrNil errs = (if errs = [] then Ok () else Err (MultiError errs))"

text \<open>
  \<^verbatim>\<open>userName != "" && a.superUsers.IsSuper(userName)\<close>: the list is asked only for a
  non-empty name.
\<close>

definition nonEmptySuper :: "world \<Rightarrow> string \<Rightarrow> bool handler" where
  "nonEmptySuper w userName =
     (if userName \<noteq> [] then lookup (SuperUsers_IsSuper userName) (superUsers_IsSuper w userName)
      else State_Monad.return False)"

section \<open>MsgHandler\<close>

definition shrink :: "world \<Rightarrow> string \<Rightarrow> nat \<Rightarrow> string" where
  "shrink w inp maxRunes =
     (if utf8_RuneCountInString w inp \<le> maxRunes then inp
      else first_runes w inp maxRunes @ ''...'')"

definition spamInfoText_of :: "world \<Rightarrow> string list \<Rightarrow> string" where
  "spamInfoText_of w checks =
     (let spamInfo = map (\<lambda>check. ''- '' @ escapeMarkDownV1Text w check) checks in
      if length spamInfo > 0 then strings_Join spamInfo ''\<newline>'' else ''**can't get spam info**'')"

definition MsgHandler :: "world \<Rightarrow> admin \<Rightarrow> tgMessage \<Rightarrow> (unit result) handler" where
  "MsgHandler w a msg =
     (if ForwardSenderName msg = [] \<and> ForwardFrom msg = None then State_Monad.return (Ok ())
      else do {
        let msgTxt = Text msg;
        found \<leftarrow> lookup (Locator_Message msgTxt) (locator_Message w msgTxt);
        case found of
          None \<Rightarrow> State_Monad.return (Err (Errorf ''not found %q in locator'' [shrink w msgTxt 50] None))
        | Some info \<Rightarrow> do {
            super \<leftarrow> nonEmptySuper w (UserName info);
            if super
            then State_Monad.return
              (Err (Errorf ''forwarded message is about super-user %s (%d), ignored''
                     [UserName info, fmt_d (sint (UserID info))] None))
            else do {
              removed \<leftarrow> perform w (Bot_RemoveApprovedUser (UserID info));
              let errs1 = (case removed of
                  Some err \<Rightarrow> [Errorf ''failed to remove user %d from approved list: %w''
                                  [fmt_d (sint (UserID info))] (Some err)]
                | None \<Rightarrow> []);
              checks \<leftarrow> lookup (Bot_OnMessage (Text msg) (UserID info))
                          (bot_OnMessage w (Text msg) (UserID info));
              let newMsgText = ''**original detection results for '' @ fmt_q w (UserName info)
                    @ '' ('' @ fmt_d (sint (UserID info)) @ '')**\<newline>\<newline>''
                    @ spamInfoText_of w checks
                    @ ''\<newline>\<newline>\<newline>*the user banned and message deleted*'';
              sent \<leftarrow> perform w (Helper_send (MessageConfig (adminChatID a) newMsgText));
              let errs2 = (case sent of
                  Some err \<Rightarrow> errs1 @ [Errorf ''failed to send spap detection results to admin chat: %w''
                                          [] (Some err)]
                | None \<Rightarrow> errs1);
              if dry a then State_Monad.return (ErrorOrNil errs2)
              else do {
                updated \<leftarrow> perform w (Bot_UpdateSpam msgTxt);
                case updated of
                  Some err \<Rightarrow> State_Monad.return
                    (Err (Errorf ''failed to update spam for %q: %w'' [msgTxt] (Some err)))
                | None \<Rightarrow> do {
                    deleted \<leftarrow> perform w
                      (TbAPI_Request (DeleteMessageConfig (primChatID a) (MsgID info)));
                    let errs3 = (case deleted of
                        Some err \<Rightarrow> errs2 @ [Errorf ''failed to delete message %d: %w''
                                                [fmt_d (sint (MsgID info))] (Some err)]
                      | None \<Rightarrow> errs2);
                    let banReq = \<lparr>br_duration = PermanentBanDuration, br_userID = UserID info,
                                   br_chatID = primChatID a, br_dry = dry a,
                                   br_training = trainingMode a\<rparr>;
                    banned \<leftarrow> perform w (BanUserOrChannel banReq);
                    let errs4 = (case banned of
                        Some err \<Rightarrow> errs3 @ [Errorf ''failed to ban user %d: %w''
                                                [fmt_d (sint (UserID info))] (Some err)]
                      | None \<Rightarrow> errs3);
                    State_Monad.return (ErrorOrNil errs4)
                  }
              }
            }
          }
      })"

section \<open>The confirmed ban\<close>

definition deleteAndBan ::
  "world \<Rightarrow> admin \<Rightarrow> callbackQuery \<Rightarrow> int64 \<Rightarrow> goint \<Rightarrow> (unit result) handler" where
  "deleteAndBan w a query userID msgID =
     do {
       let banReq = \<lparr>br_duration = PermanentBanDuration, br_userID = userID,
                      br_chatID = primChatID a, br_dry = dry a, br_training = False\<rparr>;
       userName \<leftarrow> lookup (Locator_UserNameByID userID) (locator_UserNameByID w userID);
       msgFromSuper \<leftarrow> nonEmptySuper w userName;
       errs \<leftarrow> (if \<not> msgFromSuper
                then do {
                  banned \<leftarrow> perform w (BanUserOrChannel banReq);
                  State_Monad.return (case banned of
                      Some err \<Rightarrow> [Errorf ''failed to ban user %d: %w''
                                      [fmt_d (sint userID)] (Some err)]
                    | None \<Rightarrow> [])
                }
                else State_Monad.return []);
       deleted \<leftarrow> perform w (TbAPI_Request (DeleteMessageConfig (primChatID a) msgID));
       case deleted of
         Some err \<Rightarrow> State_Monad.return
           (Err (Errorf ''failed to delete message %d: %w''
                  [fmt_d (sint (MessageID (Message query)))] (Some err)))
       | None \<Rightarrow>
           if errs \<noteq> []
           then State_Monad.return
             (Err (ErrorsNew (strings_Join (map (error_text w) errs) ''\<newline>'')))
           else State_Monad.return (Ok ())
     }"

text \<open>
  The edit \<^verbatim>\<open>callbackBanConfirmed\<close> sends: the text of the admin message with the
  confirmation appended, and an empty keyboard.
\<close>

definition confirmationEdit :: "world \<Rightarrow> callbackQuery \<Rightarrow> chattable" where
  "confirmationEdit w query =
     (let updText = Text (Message query) @ ''\<newline>\<newline>_ban confirmed by '' @ FromUserName query
            @ '' in '' @ since w (Date (Message query)) @ ''_''
      in EditMessageTextConfig (ChatID (Message query)) (MessageID (Message query)) updText [] [])"

definition callbackBanConfirmed :: "world \<Rightarrow> admin \<Rightarrow> callbackQuery \<Rightarrow> (unit result) handler" where
  "callbackBanConfirmed w a query =
     do {
       let editMsg = confirmationEdit w query;
       edited \<leftarrow> perform w (Helper_send editMsg);
       case edited of
         Some err \<Rightarrow> State_Monad.return
           (Err (Errorf ''failed to clear confirmation, chatID:%d, msgID:%d, %w''
                  [fmt_d (sint (ChatID (Message query))), fmt_d (sint (MessageID (Message query)))]
                  (Some err)))
       | None \<Rightarrow>
          (case getCleanMessage (Text (Message query)) of
             Panic \<Rightarrow> State_Monad.return Panic
           | Err err \<Rightarrow> State_Monad.return
               (Err (Errorf ''failed to get clean message: %w'' [] (Some err)))
           | Ok cleanMsg \<Rightarrow> do {
               updated \<leftarrow> perform w (Bot_UpdateSpam cleanMsg);
               case updated of
                 Some err \<Rightarrow> State_Monad.return
                   (Err (Errorf ''failed to update spam for %q: %w'' [cleanMsg] (Some err)))
               | None \<Rightarrow>
                  (case parseCallbackData (Data query) of
                     Panic \<Rightarrow> State_Monad.return Panic
                   | Err parseErr \<Rightarrow> State_Monad.return
                       (Err (Errorf ''failed to parse callback's userID %q: %w'' [Data query]
                              (Some parseErr)))
                   | Ok (userID, msgID) \<Rightarrow>
                       if trainingMode a
                       then do {
                         banned \<leftarrow> deleteAndBan w a query userID msgID;
                         State_Monad.return (case banned of
                             Panic \<Rightarrow> Panic
                           | Err err \<Rightarrow> Err (Errorf ''failed to ban user %d: %w''
                                               [fmt_d (sint userID)] (Some err))
                           | Ok u \<Rightarrow> Ok ())
                       }
                       else State_Monad.return (Ok ()))
             })
     }"

section \<open>The other callbacks\<close>

text \<open>
  \<^verbatim>\<open>extractUsername\<close>: the first submatch of the markdown pattern, else the first submatch of
  the plain pattern, else an error.
\<close>

definition extractUsername :: "world \<Rightarrow> string \<Rightarrow> string result" where
  "extractUsername w text =
     (case markdownRegex_submatch w text of
        Some name \<Rightarrow> Ok name
      | None \<Rightarrow>
         (case plainRegex_submatch w text of
            Some name \<Rightarrow> Ok name
          | None \<Rightarrow> Err (ErrorsNew ''username not found'')))"

text \<open>
  \<^verbatim>\<open>callbackAskBanConfirmation\<close>. \<^verbatim>\<open>callbackData[1:]\<close> panics on empty data (the dispatcher
  calls it on data that starts with the confirmation prefix).
\<close>

definition callbackAskBanConfirmation ::
  "world \<Rightarrow> admin \<Rightarrow> callbackQuery \<Rightarrow> (unit result) handler" where
  "callbackAskBanConfirmation w a query =
     (let callbackData = Data query;
          keepBanned = (if trainingMode a then ''Confirm ban'' else ''Keep it banned'')
      in if callbackData = [] then State_Monad.return Panic
         else do {
           let confirmationKeyboard =
                 [[InlineKeyboardButtonData ''Unban for real'' (unbanButtonData callbackData),
                   InlineKeyboardButtonData keepBanned (keepBannedButtonData callbackData)]];
           let editMsg = EditMessageReplyMarkupConfig (ChatID (Message query))
                 (MessageID (Message query)) confirmationKeyboard;
           sent \<leftarrow> perform w (Helper_send editMsg);
           State_Monad.return (case sent of
               Some err \<Rightarrow> Err (Errorf ''failed to make confiramtion, chatID:%d, msgID:%d, %w''
                   [fmt_d (sint (ChatID (Message query))),
                    fmt_d (sint (MessageID (Message query)))] (Some err))
             | None \<Rightarrow> Ok ())
         })"

definition callbackUnbanConfirmed ::
  "world \<Rightarrow> admin \<Rightarrow> callbackQuery \<Rightarrow> (unit result) handler" where
  "callbackUnbanConfirmed w a query =
     do {
       let callbackData = Data query;
       let chatID = ChatID (Message query);
       answered \<leftarrow> perform w (TbAPI_Request (CallbackConfig (QueryID query) ''accepted''));
       case answered of
         Some err \<Rightarrow> State_Monad.return
           (Err (Errorf ''failed to send callback response: %w'' [] (Some err)))
       | None \<Rightarrow>
          (case parseCallbackData callbackData of
             Panic \<Rightarrow> State_Monad.return Panic
           | Err err \<Rightarrow> State_Monad.return
               (Err (Errorf ''failed to parse callback msgsData %q: %w'' [callbackData] (Some err)))
           | Ok (userID, msgID) \<Rightarrow>
              (case getCleanMessage (Text (Message query)) of
                 Panic \<Rightarrow> State_Monad.return Panic
               | Err err \<Rightarrow> State_Monad.return
                   (Err (Errorf ''failed to get clean message: %w'' [] (Some err)))
               | Ok cleanMsg \<Rightarrow> do {
                   updated \<leftarrow> perform w (Bot_UpdateHam cleanMsg);
                   case updated of
                     Some derr \<Rightarrow> State_Monad.return
                       (Err (Errorf ''failed to update ham for %q: %w'' [cleanMsg] (Some derr)))
                   | None \<Rightarrow> do {
                       unbanned \<leftarrow> (if \<not> trainingMode a
                          then perform w (TbAPI_Request (UnbanChatMemberConfig userID (primChatID a)))
                          else State_Monad.return None);
                       case unbanned of
                         Some err \<Rightarrow> State_Monad.return
                           (Err (Errorf ''failed to unban user %d: %w'' [fmt_d (sint userID)]
                                  (Some err)))
                       | None \<Rightarrow> do {
                           let name = (case extractUsername w (Text (Message query)) of
                                 Ok n \<Rightarrow> n | Err err \<Rightarrow> [] | Panic \<Rightarrow> []);
                           added \<leftarrow> perform w (Bot_AddApprovedUser userID name);
                           case added of
                             Some err \<Rightarrow> State_Monad.return
                               (Err (Errorf ''failed to add user %d to approved list: %w''
                                      [fmt_d (sint userID)] (Some err)))
                           | None \<Rightarrow> do {
                               let updText = Text (Message query) @ ''\<newline>\<newline>_unbanned by ''
                                     @ FromUserName query @ '' in ''
                                     @ since w (Date (Message query)) @ ''_'';
                               let editMsg = EditMessageTextConfig chatID
                                     (MessageID (Message query)) updText [] [];
                               sent \<leftarrow> perform w (Helper_send editMsg);
                               State_Monad.return (case sent of
                                   Some err \<Rightarrow> Err (Errorf
                                       ''failed to edit message, chatID:%d, msgID:%d, %w''
                                       [fmt_d (sint chatID),
                                        fmt_d (sint (MessageID (Message query)))] (Some err))
                                 | None \<Rightarrow> Ok ())
                             }
                         }
                     }
                 }))
     }"

text \<open>
  \<^verbatim>\<open>callbackShowInfo\<close>. On a parse error \<^verbatim>\<open>userID\<close> is 0 and \<^verbatim>\<open>callbackData[1:]\<close> is evaluated
  for the message (a panic on empty data). \<open>showInfo_rest\<close> is the function from the
  comment "collect spam detection details" on, given the lines collected so far and the
  user id. \<^verbatim>\<open>confirmationKeyboard[0][:1]\<close> keeps the first button of the first row; on an
  empty first row (capacity 0, as decoded from an empty array) it panics.
\<close>

definition showInfo_rest ::
  "world \<Rightarrow> callbackQuery \<Rightarrow> string list \<Rightarrow> int64 \<Rightarrow> (unit result) handler" where
  "showInfo_rest w query spamInfo0 userID =
     do {
       spamInfoText \<leftarrow> (if userID \<noteq> 0
          then do {
            info \<leftarrow> lookup (Locator_Spam userID) (locator_Spam w userID);
            let spamInfo = (case info of
                  Some checks \<Rightarrow>
                    spamInfo0 @ map (\<lambda>check. ''- '' @ escapeMarkDownV1Text w check) checks
                | None \<Rightarrow> spamInfo0);
            State_Monad.return (if length spamInfo > 0 then strings_Join spamInfo ''\<newline>''
                                else ''**can't get spam info**'')
          }
          else State_Monad.return ''**can't get spam info**'');
       let updText = Text (Message query) @ ''\<newline>\<newline>**spam detection results**\<newline>''
             @ spamInfoText;
       case (case ReplyMarkup (Message query) of
               None \<Rightarrow> Some []
             | Some [] \<Rightarrow> Some []
             | Some (row # rows) \<Rightarrow>
                 (if row = [] then None else Some (take 1 row # rows))) of
         None \<Rightarrow> State_Monad.return Panic
       | Some confirmationKeyboard \<Rightarrow> do {
           let editMsg = EditMessageTextConfig (ChatID (Message query))
                 (MessageID (Message query)) updText confirmationKeyboard ''Markdown'';
           sent \<leftarrow> perform w (Helper_send editMsg);
           State_Monad.return (case sent of
               Some err \<Rightarrow> Err (Errorf ''failed to send spam info, chatID:%d, msgID:%d, %w''
                   [fmt_d (sint (ChatID (Message query))),
                    fmt_d (sint (MessageID (Message query)))] (Some err))
             | None \<Rightarrow> Ok ())
         }
     }"

definition callbackShowInfo :: "world \<Rightarrow> admin \<Rightarrow> callbackQuery \<Rightarrow> (unit result) handler" where
  "callbackShowInfo w a query =
     (let callbackData = Data query in
      case parseCallbackData callbackData of
        Panic \<Rightarrow> State_Monad.return Panic
      | Err err \<Rightarrow>
          if callbackData = [] then State_Monad.return Panic
          else showInfo_rest w query
                 [''**failed to parse userID from '' @ fmt_q w (drop 1 callbackData)
                    @ '': '' @ error_text w err @ ''**''] 0
      | Ok (userID, msgID) \<Rightarrow> showInfo_rest w query [] userID)"

text \<open>
  \<^verbatim>\<open>InlineCallbackHandler\<close>: callbacks of other chats are ignored; the prefix of the data
  selects the branch (\<open>callbackAction\<close> is the chain of prefix tests), whose error is wrapped.
\<close>

definition wrapError :: "string \<Rightarrow> unit result \<Rightarrow> unit result" where
  "wrapError msg r = (case r of Err err \<Rightarrow> Err (Errorf msg [] (Some err)) | Ok u \<Rightarrow> Ok () | Panic \<Rightarrow> Panic)"

definition InlineCallbackHandler ::
  "world \<Rightarrow> admin \<Rightarrow> callbackQuery \<Rightarrow> (unit result) handler" where
  "InlineCallbackHandler w a query =
     (if ChatID (Message query) \<noteq> adminChatID a then State_Monad.return (Ok ())
      else case callbackAction (Data query) of
        AskConfirm \<Rightarrow> do {
          r \<leftarrow> callbackAskBanConfirmation w a query;
          State_Monad.return (wrapError ''failed to make ban confirmation dialog: %w'' r)
        }
      | ConfirmBan \<Rightarrow> do {
          r \<leftarrow> callbackBanConfirmed w a query;
          State_Monad.return (wrapError ''failed confirmation ban: %w'' r)
        }
      | ShowInfo \<Rightarrow> do {
          r \<leftarrow> callbackShowInfo w a query;
          State_Monad.return (wrapError ''failed to show spam info: %w'' r)
        }
      | Unban \<Rightarrow> do {
          r \<leftarrow> callbackUnbanConfirmed w a query;
          State_Monad.return (wrapError ''failed to unban user: %w'' r)
        })"

section \<open>ReportBan\<close>

text \<open>The fields of \<^verbatim>\<open>bot.Message\<close> that \<^verbatim>\<open>ReportBan\<close> reads (\<^verbatim>\<open>From.ID\<close> is \<open>bm_FromID\<close>).\<close>

record botMessage =
  bm_ID :: goint
  bm_FromID :: int64
  bm_Text :: string

text \<open>\<^verbatim>\<open>strings.ReplaceAll(s, "\n", " ")\<close>.\<close>

definition newlines_to_spaces :: "string \<Rightarrow> string" where
  "newlines_to_spaces s = map (\<lambda>c. if c = CHR ''\<newline>'' then CHR '' '' else c) s"

text \<open>
  \<^verbatim>\<open>sendWithUnbanMarkup\<close>. The two labels start with characters outside ASCII, given here
  by their bytes.
\<close>

definition sendWithUnbanMarkup ::
  "world \<Rightarrow> string \<Rightarrow> string \<Rightarrow> int64 \<Rightarrow> goint \<Rightarrow> int64 \<Rightarrow> (unit result) handler" where
  "sendWithUnbanMarkup w text action userID msgID chatID =
     do {
       let tbMsg = MessageConfigMarkup chatID text
             [[InlineKeyboardButtonData
                 ([CHR 0xE2, CHR 0x9B, CHR 0x94, CHR 0xEF, CHR 0xB8, CHR 0x8E, CHR '' ''] @ action)
                 (sprintf_payload confirmationPrefix userID msgID),
               InlineKeyboardButtonData
                 ([CHR 0xEF, CHR 0xB8, CHR 0x8F, CHR 0xE2, CHR 0x9A, CHR 0x91] @ '' info'')
                 (sprintf_payload infoPrefix userID msgID)]];
       sent \<leftarrow> perform w (TbAPI_Send tbMsg);
       State_Monad.return (case sent of
           Some err \<Rightarrow> Err (Errorf ''can't send message to telegram %q: %w'' [text] (Some err))
         | None \<Rightarrow> Ok ())
     }"

text \<open>\<^verbatim>\<open>ReportBan\<close> returns nothing: a failure to send is logged.\<close>

definition ReportBan :: "world \<Rightarrow> admin \<Rightarrow> string \<Rightarrow> botMessage \<Rightarrow> unit handler" where
  "ReportBan w a banUserStr msg =
     do {
       let text = newlines_to_spaces (escapeMarkDownV1Text w (bm_Text msg));
       let forwardMsg = ''**permanently banned ['' @ banUserStr @ ''](tg://user?id=''
             @ fmt_d (sint (bm_FromID msg)) @ '')**\<newline>\<newline>'' @ text @ ''\<newline>\<newline>'';
       r \<leftarrow> sendWithUnbanMarkup w forwardMsg ''change ban'' (bm_FromID msg) (bm_ID msg)
              (adminChatID a);
       State_Monad.return ()
     }"

section \<open>Concrete worlds and inputs\<close>

text \<open>
  \<open>quiet_world\<close>: nothing is found, nobody is a super-user, every call succeeds.
  \<open>bob_world\<close>: the text "buy cheap meds" is the message 100 of user 7, named bob.
  \<open>super_world\<close>: the same, with bob on the super-user list. \<open>nameless_world\<close>: the text is the
  message of a user with no name, and the super-user list holds an empty entry.
  \<open>failing_world\<close>: as \<open>bob_world\<close>, with the removal from the approved list failing.
\<close>

definition quiet_world :: world where
  "quiet_world =
     \<lparr>locator_Message = (\<lambda>text. None),
      locator_Spam = (\<lambda>userID. None),
      locator_UserNameByID = (\<lambda>userID. []),
      superUsers_IsSuper = (\<lambda>userName. False),
      bot_OnMessage = (\<lambda>text userID. []),
      outcome = (\<lambda>c. None),
      escapeMarkDownV1Text = (\<lambda>text. text),
      fmt_q = (\<lambda>text. text),
      error_text = (\<lambda>err. []),
      since = (\<lambda>date. ''1s''),
      utf8_RuneCountInString = length,
      first_runes = (\<lambda>text n. take n text),
      markdownRegex_submatch = (\<lambda>text. None),
      plainRegex_submatch = (\<lambda>text. None)\<rparr>"

definition bob_world :: world where
  "bob_world = quiet_world
     \<lparr>locator_Message := (\<lambda>text. if text = ''buy cheap meds''
          then Some \<lparr>UserID = 7, UserName = ''bob'', MsgID = 100\<rparr> else None),
      locator_UserNameByID := (\<lambda>userID. if userID = 7 then ''bob'' else [])\<rparr>"

definition super_world :: world where
  "super_world = bob_world \<lparr>superUsers_IsSuper := (\<lambda>userName. userName = ''bob'')\<rparr>"

definition nameless_world :: world where
  "nameless_world = quiet_world
     \<lparr>locator_Message := (\<lambda>text. if text = ''buy cheap meds''
          then Some \<lparr>UserID = 7, UserName = [], MsgID = 100\<rparr> else None),
      superUsers_IsSuper := (\<lambda>userName. userName \<in> set [''admin'', []])\<rparr>"

definition failing_world :: world where
  "failing_world = bob_world
     \<lparr>outcome := (\<lambda>c. if c = Bot_RemoveApprovedUser 7 then Some (External ''no such user'')
          else None)\<rparr>"

definition live_admin :: admin where
  "live_admin = \<lparr>primChatID = 1000, adminChatID = 2000, trainingMode = False, dry = False\<rparr>"

definition dry_admin :: admin where
  "dry_admin = live_admin \<lparr>dry := True\<rparr>"

definition training_admin :: admin where
  "training_admin = live_admin \<lparr>trainingMode := True\<rparr>"

definition forwarded :: tgMessage where
  "forwarded =
     \<lparr>MessageID = 55, ChatID = 2000, Text = ''buy cheap meds'', Date = 0,
      ForwardSenderName = ''Bob'', ForwardFrom = None, ReplyMarkup = None\<rparr>"

definition report :: tgMessage where
  "report =
     \<lparr>MessageID = 56, ChatID = 2000,
      Text = ''permanently banned bob\<newline>\<newline>buy cheap meds\<newline>\<newline>spam detection results'',
      Date = 0, ForwardSenderName = [], ForwardFrom = None, ReplyMarkup = None\<rparr>"

definition confirm_press :: callbackQuery where
  "confirm_press = \<lparr>QueryID = ''q1'', Data = ''+7:100'', FromUserName = ''admin'', Message = report\<rparr>"


definition early_marker_report :: tgMessage where
  "early_marker_report = report
     \<lparr>Text := ''permanently banned bob\<newline>\<newline>spam detection results: none, buy cheap meds''\<rparr>"

definition early_marker_press :: callbackQuery where
  "early_marker_press = confirm_press \<lparr>Message := early_marker_report\<rparr>"

section \<open>Properties of getCleanMessage\<close>





section \<open>Properties of the callback payload\<close>


lemma of_char_digit_char: "d < 10 \<Longrightarrow> (of_char (digit_char d) :: nat) = 48 + d"
  by (simp add: digit_char_def)

lemma digitValue_digit_char: "d < 10 \<Longrightarrow> digitValue (digit_char d) = Some d"
  by (simp add: digitValue_def Let_def of_char_digit_char)

lemma digit_char_neq:
  assumes "d < 10" and "(of_char c :: nat) < 48 \<or> 57 < (of_char c :: nat)"
  shows "digit_char d \<noteq> c"
  using assms of_char_digit_char [of d] by auto

lemma fmt_nat_digits: "c \<in> set (fmt_nat n) \<Longrightarrow> \<exists>d<10. c = digit_char d"
proof (induction n rule: fmt_nat.induct)
  case (1 n)
  show ?case
  proof (cases "n < 10")
    case True
    with "1.prems" show ?thesis by (auto simp: fmt_nat.simps [of n])
  next
    case False
    with "1.prems" have "c \<in> set (fmt_nat (n div 10)) \<or> c = digit_char (n mod 10)"
      by (auto simp: fmt_nat.simps [of n])
    then show ?thesis
    proof
      assume "c \<in> set (fmt_nat (n div 10))"
      with "1.IH" False show ?thesis by simp
    next
      assume "c = digit_char (n mod 10)"
      moreover have "n mod 10 < 10" by simp
      ultimately show ?thesis by blast
    qed
  qed
qed

lemma fmt_nat_nonempty: "fmt_nat n \<noteq> []"
  by (subst fmt_nat.simps) simp

lemma ParseUint_loop_append:
  "ParseUint_loop (xs @ ys) a =
     (case ParseUint_loop xs a of Inl e \<Rightarrow> Inl e | Inr m \<Rightarrow> ParseUint_loop ys m)"
  by (induction xs arbitrary: a) (auto simp: Let_def split: option.splits)

lemma ParseUint_loop_digit:
  assumes "d < 10" and "a * 10 + d < 2 ^ 64"
  shows "ParseUint_loop [digit_char d] a = Inr (a * 10 + d)"
proof -
  have "a < maxUint64 div 10 + 1"
    using assms(2) by (simp add: maxUint64_def)
  moreover have "a * 10 + d \<le> maxUint64"
    using assms(2) by (simp add: maxUint64_def)
  ultimately show ?thesis
    using assms by (simp add: digitValue_digit_char Let_def)
qed

lemma ParseUint_loop_fmt_nat: "n < 2 ^ 64 \<Longrightarrow> ParseUint_loop (fmt_nat n) 0 = Inr n"
proof (induction n rule: fmt_nat.induct)
  case (1 n)
  show ?case
  proof (cases "n < 10")
    case True
    then have "ParseUint_loop [digit_char n] 0 = Inr (0 * 10 + n)"
      using "1.prems" by (intro ParseUint_loop_digit) simp_all
    with True show ?thesis by (simp add: fmt_nat.simps [of n])
  next
    case False
    have "n div 10 < 2 ^ 64" using "1.prems" by simp
    with "1.IH" False have ih: "ParseUint_loop (fmt_nat (n div 10)) 0 = Inr (n div 10)"
      by simp
    have "ParseUint_loop [digit_char (n mod 10)] (n div 10) = Inr (n div 10 * 10 + n mod 10)"
      using "1.prems" by (intro ParseUint_loop_digit) simp_all
    with ih False show ?thesis
      by (simp add: fmt_nat.simps [of n] ParseUint_loop_append)
  qed
qed

lemma strconv_ParseUint_fmt_nat: "n < 2 ^ 64 \<Longrightarrow> strconv_ParseUint (fmt_nat n) = Inr n"
  by (simp add: strconv_ParseUint_def fmt_nat_nonempty ParseUint_loop_fmt_nat)

lemma fmt_nat_avoids:
  assumes "(of_char c :: nat) < 48 \<or> 57 < (of_char c :: nat)"
  shows "c \<notin> set (fmt_nat n)"
  using fmt_nat_digits digit_char_neq [OF _ assms] by blast

lemma hd_fmt_nat: "hd (fmt_nat n) \<in> set (fmt_nat n)"
  by (simp add: fmt_nat_nonempty)

lemma hd_fmt_nat_neq:
  assumes "(of_char c :: nat) < 48 \<or> 57 < (of_char c :: nat)"
  shows "hd (fmt_nat n) \<noteq> c"
  using fmt_nat_avoids [OF assms, of n] hd_fmt_nat [of n] by auto

lemma strconv_ParseInt_fmt_d:
  assumes "- (2 ^ 63) \<le> i" and "i < 2 ^ 63"
  shows "strconv_ParseInt (fmt_d i) = Inr i"
proof (cases "i < 0")
  case True
  then have "nat (- i) \<le> 2 ^ 63" using assms(1) by simp
  then have "nat (- i) < 2 ^ 64" by simp
  then have "strconv_ParseUint (fmt_nat (nat (- i))) = Inr (nat (- i))"
    by (rule strconv_ParseUint_fmt_nat)
  with True \<open>nat (- i) \<le> 2 ^ 63\<close> show ?thesis
    by (simp add: strconv_ParseInt_def fmt_d_def)
next
  case False
  then have lt: "nat i < 2 ^ 63" using assms(2) by simp
  then have "nat i < 2 ^ 64" by simp
  then have "strconv_ParseUint (fmt_nat (nat i)) = Inr (nat i)"
    by (rule strconv_ParseUint_fmt_nat)
  moreover have "hd (fmt_nat (nat i)) \<noteq> CHR ''-''" "hd (fmt_nat (nat i)) \<noteq> CHR ''+''"
    by (simp_all add: hd_fmt_nat_neq)
  ultimately show ?thesis
    using False lt by (simp add: strconv_ParseInt_def fmt_d_def fmt_nat_nonempty)
qed


lemma strings_Split_nonempty: "strings_Split s sep \<noteq> []"
  by (cases s) (auto split: list.splits)

lemma strings_Split_no_sep: "sep \<notin> set s \<Longrightarrow> strings_Split s sep = [s]"
  by (induction s) auto

lemma strings_Split_at_sep:
  "sep \<notin> set a \<Longrightarrow> strings_Split (a @ sep # b) sep = a # strings_Split b sep"
  by (induction a) auto

lemma length_strings_Split: "length (strings_Split s sep) = Suc (count_list s sep)"
  by (induction s) (auto split: list.splits simp: strings_Split_nonempty)

lemma fmt_d_avoids:
  assumes "(of_char c :: nat) < 48 \<or> 57 < (of_char c :: nat)" and "c \<noteq> CHR ''-''"
  shows "c \<notin> set (fmt_d i)"
  using assms fmt_nat_avoids [OF assms(1)] by (simp add: fmt_d_def)

lemma fmt_d_nonempty: "fmt_d i \<noteq> []"
  by (simp add: fmt_d_def fmt_nat_nonempty)

lemma hd_fmt_d_neq:
  assumes "(of_char c :: nat) < 48 \<or> 57 < (of_char c :: nat)" and "c \<noteq> CHR ''-''"
  shows "hd (fmt_d i) \<noteq> c"
  using fmt_d_avoids [OF assms, of i] fmt_d_nonempty [of i] by (auto dest: hd_in_set)

lemma length_fmt_d: "1 \<le> length (fmt_d i)"
  using fmt_d_nonempty [of i] by (cases "fmt_d i") simp_all

lemma length_ids: "3 \<le> length (fmt_d i @ '':'' @ fmt_d j)"
proof -
  have "length (fmt_d i @ '':'' @ fmt_d j) = length (fmt_d i) + 1 + length (fmt_d j)"
    by simp
  then show ?thesis
    using length_fmt_d [of i] length_fmt_d [of j] by linarith
qed

lemma sint64_range: "- (2 ^ 63) \<le> sint (w :: 64 word)" "sint (w :: 64 word) < 2 ^ 63"
  using sint_ge [of w] sint_lt [of w] by simp_all

lemma strconv_ParseInt_sint: "strconv_ParseInt (fmt_d (sint (w :: 64 word))) = Inr (sint w)"
  by (rule strconv_ParseInt_fmt_d) (rule sint64_range)+

text \<open>The ids printed with a colon between them, with no prefix, parse back.\<close>

lemma parseCallbackData_plain:
  "parseCallbackData (fmt_d (sint userID) @ '':'' @ fmt_d (sint msgID)) = Ok (userID, msgID)"
proof -
  let ?u = "fmt_d (sint userID)" and ?m = "fmt_d (sint msgID)"
  let ?data = "?u @ '':'' @ ?m"
  have len: "\<not> length ?data < 3"
    using length_ids [of "sint userID" "sint msgID"] by linarith
  have "take 1 ?data = [hd ?u]"
    using fmt_d_nonempty [of "sint userID"] by (cases ?u) simp_all
  then have nopre: "take 1 ?data \<noteq> confirmationPrefix" "take 1 ?data \<noteq> banPrefix"
    "take 1 ?data \<noteq> infoPrefix"
    by (simp_all add: confirmationPrefix_def banPrefix_def infoPrefix_def hd_fmt_d_neq)
  have "strings_Split ?data (CHR '':'') = ?u # strings_Split ?m (CHR '':'')"
    using strings_Split_at_sep [of "CHR '':''" ?u ?m] by (simp add: fmt_d_avoids)
  then have parts: "strings_Split ?data (CHR '':'') = [?u, ?m]"
    by (simp add: strings_Split_no_sep fmt_d_avoids)
  show ?thesis
    unfolding parseCallbackData_def trimPrefix_def
    using len nopre parts
    by (simp add: Let_def strconv_Atoi_def strconv_ParseInt_sint del: append.simps)
qed

lemma parseCallbackData_prefixed:
  assumes "p = confirmationPrefix \<or> p = banPrefix \<or> p = infoPrefix"
  shows "parseCallbackData (p @ fmt_d (sint userID) @ '':'' @ fmt_d (sint msgID)) = Ok (userID, msgID)"
proof -
  let ?u = "fmt_d (sint userID)" and ?m = "fmt_d (sint msgID)"
  let ?data = "?u @ '':'' @ ?m"
  obtain c where p: "p = [c]"
    using assms by (auto simp: confirmationPrefix_def banPrefix_def infoPrefix_def)
  have len: "\<not> length (c # ?data) < 3"
    using length_ids [of "sint userID" "sint msgID"] by (simp only: length_Cons)
  have pre: "take 1 (c # ?data) = p" "drop 1 (c # ?data) = ?data"
    using p by simp_all
  have "strings_Split ?data (CHR '':'') = ?u # strings_Split ?m (CHR '':'')"
    using strings_Split_at_sep [of "CHR '':''" ?u ?m] by (simp add: fmt_d_avoids)
  then have parts: "strings_Split ?data (CHR '':'') = [?u, ?m]"
    by (simp add: strings_Split_no_sep fmt_d_avoids)
  have "parseCallbackData (c # ?data) = Ok (userID, msgID)"
    unfolding parseCallbackData_def trimPrefix_def pre Let_def
    using len parts assms
    by (simp add: strconv_Atoi_def strconv_ParseInt_sint del: append.simps take_Cons' drop_Cons')
  then show ?thesis
    using p by simp
qed

lemma encode_shape:
  "encode a userID msgID =
     (case a of AskConfirm \<Rightarrow> ''?'' | ConfirmBan \<Rightarrow> ''+'' | ShowInfo \<Rightarrow> ''!'' | Unban \<Rightarrow> '''')
       @ fmt_d (sint userID) @ '':'' @ fmt_d (sint msgID)"
  by (cases a)
    (simp_all add: sprintf_payload_def unbanButtonData_def keepBannedButtonData_def
      confirmationPrefix_def banPrefix_def infoPrefix_def)

lemma callbackAction_encode: "callbackAction (encode a userID msgID) = a"
proof -
  have "hd (fmt_d (sint userID)) \<noteq> CHR ''?''" "hd (fmt_d (sint userID)) \<noteq> CHR ''+''"
    "hd (fmt_d (sint userID)) \<noteq> CHR ''!''"
    by (simp_all add: hd_fmt_d_neq)
  then have "\<not> strings_HasPrefix (fmt_d (sint userID) @ s) [c]"
    if "c = CHR ''?'' \<or> c = CHR ''+'' \<or> c = CHR ''!''" for c s
    using that fmt_d_nonempty [of "sint userID"]
    by (cases "fmt_d (sint userID)") (auto simp: strings_HasPrefix_def)
  then show ?thesis
    by (cases a)
      (simp_all add: encode_shape callbackAction_def confirmationPrefix_def banPrefix_def
        infoPrefix_def, simp_all add: strings_HasPrefix_def)
qed

lemma parseCallbackData_encode: "parseCallbackData (encode a userID msgID) = Ok (userID, msgID)"
proof (cases a)
  case Unban
  then show ?thesis
    using parseCallbackData_plain [of userID msgID] by (simp add: encode_shape)
next
  case AskConfirm
  then show ?thesis
    using parseCallbackData_prefixed [of "''?''" userID msgID]
    by (simp add: encode_shape confirmationPrefix_def)
next
  case ConfirmBan
  then show ?thesis
    using parseCallbackData_prefixed [of "''+''" userID msgID]
    by (simp add: encode_shape banPrefix_def)
next
  case ShowInfo
  then show ?thesis
    using parseCallbackData_prefixed [of "''!''" userID msgID]
    by (simp add: encode_shape infoPrefix_def)
qed

lemma digitValue_isDigit: "isDigit c \<Longrightarrow> digitValue c = Some (of_char c - of_char (CHR ''0''))"
  by (simp add: digitValue_def isDigit_def Let_def)

lemma isDigit_value_less: "isDigit c \<Longrightarrow> (of_char c :: nat) - of_char (CHR ''0'') < 10"
  by (auto simp: isDigit_def)

lemma digitValue_not_isDigit:
  "\<not> isDigit c \<Longrightarrow> digitValue c = None \<or> (\<exists>d\<ge>10. digitValue c = Some d)"
  by (auto simp: digitValue_def isDigit_def Let_def)

lemma decimalValue_ge: "a \<le> decimalValue s a"
proof (induction s arbitrary: a)
  case Nil
  show ?case by simp
next
  case (Cons c cs)
  have "a \<le> a * 10 + (of_char c - of_char (CHR ''0''))" by simp
  also have "\<dots> \<le> decimalValue cs (a * 10 + (of_char c - of_char (CHR ''0'')))"
    by (rule Cons.IH)
  finally show ?case by simp
qed

lemma ParseUint_loop_step:
  assumes "isDigit c" and "a < 2 ^ 64"
  shows "ParseUint_loop (c # cs) a =
           (if a * 10 + (of_char c - of_char (CHR ''0'')) < 2 ^ 64
            then ParseUint_loop cs (a * 10 + (of_char c - of_char (CHR ''0'')))
            else Inl ErrRange)"
proof -
  let ?d = "(of_char c :: nat) - of_char (CHR ''0'')"
  have d: "?d < 10" using assms(1) by (rule isDigit_value_less)
  show ?thesis
  proof (cases "a \<ge> maxUint64 div 10 + 1")
    case True
    then have "\<not> a * 10 + ?d < 2 ^ 64" by (simp add: maxUint64_def)
    with True d show ?thesis
      by (simp add: digitValue_isDigit [OF assms(1)])
  next
    case False
    then have a10: "a * 10 < 2 ^ 64" by (simp add: maxUint64_def)
    show ?thesis
    proof (cases "a * 10 + ?d < 2 ^ 64")
      case True
      then have "(a * 10 + ?d) mod 2 ^ 64 = a * 10 + ?d" by simp
      moreover have "a * 10 + ?d \<le> maxUint64" using True by (simp add: maxUint64_def)
      ultimately show ?thesis
        using True False d by (simp add: digitValue_isDigit [OF assms(1)] Let_def)
    next
      case over: False
      have "a * 10 + ?d < 2 * 2 ^ 64" using a10 d by simp
      then have "(a * 10 + ?d) mod 2 ^ 64 = a * 10 + ?d - 2 ^ 64"
        using over by (simp add: mod_if)
      then have "(a * 10 + ?d) mod 2 ^ 64 < a * 10" using over d by simp
      then show ?thesis
        using over False d by (simp add: digitValue_isDigit [OF assms(1)] Let_def)
    qed
  qed
qed

lemma ParseUint_loop_not_digit: "\<not> isDigit c \<Longrightarrow> ParseUint_loop (c # cs) a = Inl ErrSyntax"
  using digitValue_not_isDigit [of c] by auto

lemma ParseUint_loop_Inr:
  "a < 2 ^ 64 \<Longrightarrow>
   ParseUint_loop s a = Inr n \<longleftrightarrow>
     (\<forall>c \<in> set s. isDigit c) \<and> decimalValue s a < 2 ^ 64 \<and> n = decimalValue s a"
proof (induction s arbitrary: a)
  case Nil
  then show ?case by auto
next
  case (Cons c cs)
  show ?case
  proof (cases "isDigit c")
    case False
    then show ?thesis by (simp add: ParseUint_loop_not_digit del: ParseUint_loop.simps)
  next
    case True
    let ?a = "a * 10 + (of_char c - of_char (CHR ''0''))"
    show ?thesis
    proof (cases "?a < 2 ^ 64")
      case small: True
      then show ?thesis
        using True Cons.prems Cons.IH [of ?a]
        by (simp add: ParseUint_loop_step del: ParseUint_loop.simps)
    next
      case big: False
      have "?a \<le> decimalValue cs ?a" by (rule decimalValue_ge)
      with big have "\<not> decimalValue (c # cs) a < 2 ^ 64" by simp
      with big True Cons.prems show ?thesis
        by (simp add: ParseUint_loop_step del: decimalValue.simps ParseUint_loop.simps)
    qed
  qed
qed

lemma strconv_ParseUint_Inr:
  "strconv_ParseUint s = Inr n \<longleftrightarrow>
     s \<noteq> [] \<and> (\<forall>c \<in> set s. isDigit c) \<and> decimalValue s 0 < 2 ^ 64 \<and> n = decimalValue s 0"
  by (simp add: strconv_ParseUint_def ParseUint_loop_Inr)

lemma strconv_ParseUint_cases:
  obtains (bad) e where "strconv_ParseUint b = Inl e"
      and "\<not> (b \<noteq> [] \<and> (\<forall>c \<in> set b. isDigit c) \<and> decimalValue b 0 < 2 ^ 64)"
  | (good) "strconv_ParseUint b = Inr (decimalValue b 0)"
      and "b \<noteq> []" and "\<forall>c \<in> set b. isDigit c" and "decimalValue b 0 < 2 ^ 64"
proof (cases "strconv_ParseUint b")
  case (Inl e)
  moreover from Inl
  have "\<not> (b \<noteq> [] \<and> (\<forall>c \<in> set b. isDigit c) \<and> decimalValue b 0 < 2 ^ 64)"
    using strconv_ParseUint_Inr [of b "decimalValue b 0"] by auto
  ultimately show ?thesis by (rule bad)
next
  case (Inr n)
  then show ?thesis
    using strconv_ParseUint_Inr [of b n] good by auto
qed

lemma strconv_ParseInt_iff: "strconv_ParseInt s = Inr v \<longleftrightarrow> decimalInt64 s = Some v"
proof (cases s)
  case Nil
  then show ?thesis by (simp add: strconv_ParseInt_def decimalInt64_def)
next
  case (Cons c cs)
  consider (plus) "c = CHR ''+''" | (minus) "c = CHR ''-''"
    | (digits) "c \<noteq> CHR ''+''" "c \<noteq> CHR ''-''"
    by blast
  then show ?thesis
  proof cases
    case plus
    show ?thesis
      by (cases cs rule: strconv_ParseUint_cases)
        (use Cons plus in \<open>auto simp: strconv_ParseInt_def decimalInt64_def Let_def\<close>)
  next
    case minus
    show ?thesis
      by (cases cs rule: strconv_ParseUint_cases)
        (use Cons minus in \<open>auto simp: strconv_ParseInt_def decimalInt64_def Let_def\<close>)
  next
    case digits
    show ?thesis
      by (cases "c # cs" rule: strconv_ParseUint_cases)
        (use Cons digits in
          \<open>auto simp: strconv_ParseInt_def decimalInt64_def Let_def simp del: decimalValue.simps\<close>)
  qed
qed


lemma strconv_ParseInt_fails: "(\<exists>e. strconv_ParseInt s = Inl e) \<longleftrightarrow> decimalInt64 s = None"
proof (cases "strconv_ParseInt s")
  case (Inl e)
  then have "decimalInt64 s \<noteq> Some v" for v
    using strconv_ParseInt_iff [of s v] by simp
  then have "decimalInt64 s = None"
    by (cases "decimalInt64 s") blast+
  with Inl show ?thesis by simp
next
  case (Inr v)
  then show ?thesis using strconv_ParseInt_iff [of s v] by simp
qed

lemma parseCallbackData_two_parts:
  assumes "\<not> length data < 3" and "strings_Split (trimPrefix data) (CHR '':'') = [l, r]"
  shows "parseCallbackData data =
     (case strconv_ParseInt l of
        Inl e \<Rightarrow> Err (Errorf ''failed to parse userID %q: %w'' [l] (Some (NumError ''ParseInt'' l e)))
      | Inr userID \<Rightarrow>
          (case strconv_ParseInt r of
             Inl e \<Rightarrow> Err (Errorf ''failed to parse msgID %q: %w'' [r] (Some (NumError ''Atoi'' r e)))
           | Inr msgID \<Rightarrow> Ok (word_of_int userID, word_of_int msgID)))"
  using assms by (simp add: parseCallbackData_def Let_def strconv_Atoi_def split: sum.splits)

text \<open>
  Claim C2. For each of the four actions and all non-negative ids, decoding the payload
  \<open>prefix @ userID @ '':'' @ msgID\<close> (no prefix for Unban, \<open>?\<close> for AskConfirm, \<open>+\<close> for
  ConfirmBan, \<open>!\<close> for ShowInfo, see \<open>encode_shape\<close>) gives back the action and both ids.
  The ids are 64-bit values; the lemmas above do not use their sign.
\<close>

theorem decode_encode:
  assumes "0 \<le> sint userID" and "0 \<le> sint msgID"
  shows "decode (encode a userID msgID) = Ok (a, userID, msgID)"
  by (simp add: decode_def parseCallbackData_encode callbackAction_encode)

theorem decode_encode_witness:
  "decode (encode ConfirmBan 7 100) = Ok (ConfirmBan, 7, 100) \<and> encode ConfirmBan 7 100 = ''+7:100''"
proof -
  have "(0::int) \<le> sint (7 :: 64 word)" "(0::int) \<le> sint (100 :: 64 word)"
    by simp_all
  then have "decode (encode ConfirmBan 7 100) = Ok (ConfirmBan, 7, 100)"
    by (rule decode_encode)
  moreover have "encode ConfirmBan 7 100 = ''+7:100''"
    by code_simp
  ultimately show ?thesis by simp
qed

text \<open>
  Claim C6. Decoding is a function of the payload alone: it calls no collaborator and has no
  effect. It fails with an error exactly when the payload is shorter than 3 bytes, or what is
  left of it after a recognized one-byte prefix is removed does not hold exactly one colon, or
  one of the two halves is not a decimal integer in the range of a 64-bit integer; it never
  panics. A payload with no recognized prefix goes to the Unban branch.
\<close>

theorem decode_malformed:
  "((length data < 3
      \<or> count_list (trimPrefix data) (CHR '':'') \<noteq> 1
      \<or> (\<exists>l r. strings_Split (trimPrefix data) (CHR '':'') = [l, r]
             \<and> (decimalInt64 l = None \<or> decimalInt64 r = None)))
     \<longleftrightarrow> (\<exists>e. parseCallbackData data = Err e \<and> decode data = Err e))
   \<and> parseCallbackData data \<noteq> Panic
   \<and> (take 1 data \<notin> {confirmationPrefix, banPrefix, infoPrefix} \<longrightarrow>
        callbackAction data = Unban
        \<and> (\<forall>userID msgID. parseCallbackData data = Ok (userID, msgID) \<longrightarrow>
              decode data = Ok (Unban, userID, msgID)))"
proof -
  let ?parts = "strings_Split (trimPrefix data) (CHR '':'')"
  have dec: "decode data = Err e" if "parseCallbackData data = Err e" for e
    using that by (simp add: decode_def)
  have main: "(length data < 3
      \<or> count_list (trimPrefix data) (CHR '':'') \<noteq> 1
      \<or> (\<exists>l r. ?parts = [l, r] \<and> (decimalInt64 l = None \<or> decimalInt64 r = None)))
     \<longleftrightarrow> (\<exists>e. parseCallbackData data = Err e)"
    and nopanic: "parseCallbackData data \<noteq> Panic"
  proof -
    consider (short) "length data < 3"
      | (parts) "\<not> length data < 3" "length ?parts \<noteq> 2"
      | (two) l r where "\<not> length data < 3" "?parts = [l, r]"
    proof (cases "length ?parts = 2")
      case True
      then obtain l r where "?parts = [l, r]"
        by (cases ?parts; cases "tl ?parts") auto
      then show ?thesis using that by blast
    next
      case False
      then show ?thesis using that by blast
    qed
    then have "((length data < 3
      \<or> count_list (trimPrefix data) (CHR '':'') \<noteq> 1
      \<or> (\<exists>l r. ?parts = [l, r] \<and> (decimalInt64 l = None \<or> decimalInt64 r = None)))
     \<longleftrightarrow> (\<exists>e. parseCallbackData data = Err e)) \<and> parseCallbackData data \<noteq> Panic"
    proof cases
      case short
      then show ?thesis by (simp add: parseCallbackData_def)
    next
      case parts
      moreover from parts(2) have "count_list (trimPrefix data) (CHR '':'') \<noteq> 1"
        by (simp add: length_strings_Split)
      ultimately show ?thesis by (simp add: parseCallbackData_def Let_def)
    next
      case two
      have cnt: "count_list (trimPrefix data) (CHR '':'') = 1"
        using length_strings_Split [of "trimPrefix data" "CHR '':''"] two(2) by simp
      show ?thesis
      proof (cases "strconv_ParseInt l")
        case (Inl e)
        then have "decimalInt64 l = None" using strconv_ParseInt_fails [of l] by blast
        with Inl two show ?thesis
          by (simp add: parseCallbackData_two_parts [OF two])
      next
        case l: (Inr u)
        then have ln: "decimalInt64 l \<noteq> None" using strconv_ParseInt_fails [of l] by auto
        show ?thesis
        proof (cases "strconv_ParseInt r")
          case (Inl e)
          then have "decimalInt64 r = None" using strconv_ParseInt_fails [of r] by blast
          with Inl l two show ?thesis
            by (simp add: parseCallbackData_two_parts [OF two])
        next
          case (Inr m)
          then have "decimalInt64 r \<noteq> None" using strconv_ParseInt_fails [of r] by auto
          with Inr l ln two cnt show ?thesis
            by (simp add: parseCallbackData_two_parts [OF two])
        qed
      qed
    qed
    then show "(length data < 3
      \<or> count_list (trimPrefix data) (CHR '':'') \<noteq> 1
      \<or> (\<exists>l r. ?parts = [l, r] \<and> (decimalInt64 l = None \<or> decimalInt64 r = None)))
     \<longleftrightarrow> (\<exists>e. parseCallbackData data = Err e)" and "parseCallbackData data \<noteq> Panic"
      by blast+
  qed
  have unban: "callbackAction data = Unban"
    if "take 1 data \<notin> {confirmationPrefix, banPrefix, infoPrefix}"
    using that
    by (auto simp: callbackAction_def strings_HasPrefix_def confirmationPrefix_def
        banPrefix_def infoPrefix_def)
  have "(\<exists>e. parseCallbackData data = Err e) \<longleftrightarrow> (\<exists>e. parseCallbackData data = Err e \<and> decode data = Err e)"
    using dec by blast
  with main nopanic unban show ?thesis
    by (auto simp: decode_def)
qed

theorem decode_malformed_witness:
  "(\<exists>e. parseCallbackData ''7:x'' = Err e \<and> decode ''7:x'' = Err e)
   \<and> callbackAction ''7:x'' = Unban"
proof -
  have "strings_Split (trimPrefix ''7:x'') (CHR '':'') = [''7'', ''x''] \<and> decimalInt64 ''x'' = None"
    by (simp add: trimPrefix_def confirmationPrefix_def banPrefix_def infoPrefix_def
        decimalInt64_def isDigit_def)
  then have bad: "\<exists>l r. strings_Split (trimPrefix ''7:x'') (CHR '':'') = [l, r]
             \<and> (decimalInt64 l = None \<or> decimalInt64 r = None)"
    by blast
  have noprefix: "take 1 ''7:x'' \<notin> {confirmationPrefix, banPrefix, infoPrefix}"
    by (simp add: confirmationPrefix_def banPrefix_def infoPrefix_def)
  show ?thesis
    using decode_malformed [of "''7:x''"] bad noprefix by blast
qed

section \<open>Runs of the handler\<close>


lemma run_lookup [simp]: "run_state (lookup c v) t = (v, t @ [c])"
  by (simp add: lookup_def)

lemma run_perform [simp]: "run_state (perform w c) t = (outcome w c, t @ [c])"
  by (simp add: perform_def)

lemma run_nonEmptySuper [simp]:
  "run_state (nonEmptySuper w n) t =
     (n \<noteq> [] \<and> superUsers_IsSuper w n, t @ (if n \<noteq> [] then [SuperUsers_IsSuper n] else []))"
  by (simp add: nonEmptySuper_def)

lemma MsgHandler_super_run:
  assumes "ForwardSenderName msg \<noteq> [] \<or> ForwardFrom msg \<noteq> None"
    and "locator_Message w (Text msg) = Some info"
    and "UserName info \<noteq> []"
    and "superUsers_IsSuper w (UserName info)"
  shows "run_state (MsgHandler w a msg) [] =
    (Err (Errorf ''forwarded message is about super-user %s (%d), ignored''
            [UserName info, fmt_d (sint (UserID info))] None),
     [Locator_Message (Text msg), SuperUsers_IsSuper (UserName info)])"
  using assms by (auto simp: MsgHandler_def Let_def)

text \<open>
  The run of MsgHandler on a forwarded message whose record is found and whose user is not
  protected: the calls made and the result, for every answer of the collaborators.
\<close>

lemma MsgHandler_found_run:
  assumes "ForwardSenderName msg \<noteq> [] \<or> ForwardFrom msg \<noteq> None"
    and "locator_Message w (Text msg) = Some info"
    and "\<not> (UserName info \<noteq> [] \<and> superUsers_IsSuper w (UserName info))"
  shows "run_state (MsgHandler w a msg) [] =
    (let remove = Bot_RemoveApprovedUser (UserID info);
         notify = Helper_send (MessageConfig (adminChatID a)
           (''**original detection results for '' @ fmt_q w (UserName info)
              @ '' ('' @ fmt_d (sint (UserID info)) @ '')**\<newline>\<newline>''
              @ spamInfoText_of w (bot_OnMessage w (Text msg) (UserID info))
              @ ''\<newline>\<newline>\<newline>*the user banned and message deleted*''));
         update = Bot_UpdateSpam (Text msg);
         delete = TbAPI_Request (DeleteMessageConfig (primChatID a) (MsgID info));
         ban = BanUserOrChannel \<lparr>br_duration = PermanentBanDuration, br_userID = UserID info,
                 br_chatID = primChatID a, br_dry = dry a, br_training = trainingMode a\<rparr>;
         errs12 =
           (case outcome w remove of
              Some err \<Rightarrow> [Errorf ''failed to remove user %d from approved list: %w''
                              [fmt_d (sint (UserID info))] (Some err)]
            | None \<Rightarrow> [])
           @ (case outcome w notify of
              Some err \<Rightarrow> [Errorf ''failed to send spap detection results to admin chat: %w''
                              [] (Some err)]
            | None \<Rightarrow> []);
         errs34 =
           (case outcome w delete of
              Some err \<Rightarrow> [Errorf ''failed to delete message %d: %w''
                              [fmt_d (sint (MsgID info))] (Some err)]
            | None \<Rightarrow> [])
           @ (case outcome w ban of
              Some err \<Rightarrow> [Errorf ''failed to ban user %d: %w''
                              [fmt_d (sint (UserID info))] (Some err)]
            | None \<Rightarrow> []);
         start = [Locator_Message (Text msg)]
           @ (if UserName info \<noteq> [] then [SuperUsers_IsSuper (UserName info)] else [])
           @ [remove, Bot_OnMessage (Text msg) (UserID info), notify]
     in if dry a then (ErrorOrNil errs12, start)
        else case outcome w update of
          Some err \<Rightarrow> (Err (Errorf ''failed to update spam for %q: %w'' [Text msg] (Some err)),
                        start @ [update])
        | None \<Rightarrow> (ErrorOrNil (errs12 @ errs34), start @ [update, delete, ban]))"
  using assms
  by (auto simp: MsgHandler_def Let_def split: option.splits)


lemma deleteAndBan_run:
  "run_state (deleteAndBan w a query userID msgID) t =
    (let userName = locator_UserNameByID w userID;
         msgFromSuper = (userName \<noteq> [] \<and> superUsers_IsSuper w userName);
         ban = BanUserOrChannel \<lparr>br_duration = PermanentBanDuration, br_userID = userID,
                 br_chatID = primChatID a, br_dry = dry a, br_training = False\<rparr>;
         delete = TbAPI_Request (DeleteMessageConfig (primChatID a) msgID);
         errs = (if msgFromSuper then []
                 else case outcome w ban of
                   Some err \<Rightarrow> [Errorf ''failed to ban user %d: %w'' [fmt_d (sint userID)] (Some err)]
                 | None \<Rightarrow> [])
     in ((case outcome w delete of
            Some err \<Rightarrow> Err (Errorf ''failed to delete message %d: %w''
                              [fmt_d (sint (MessageID (Message query)))] (Some err))
          | None \<Rightarrow> if errs \<noteq> []
                    then Err (ErrorsNew (strings_Join (map (error_text w) errs) ''\<newline>''))
                    else Ok ()),
         t @ [Locator_UserNameByID userID]
           @ (if userName \<noteq> [] then [SuperUsers_IsSuper userName] else [])
           @ (if msgFromSuper then [] else [ban])
           @ [delete]))"
  by (auto simp: deleteAndBan_def Let_def split: option.splits)

text \<open>The run of callbackBanConfirmed, step by step.\<close>

lemma callbackBanConfirmed_run:
  "run_state (callbackBanConfirmed w a query) [] =
    (let edit = Helper_send (confirmationEdit w query)
     in case outcome w edit of
       Some err \<Rightarrow>
         (Err (Errorf ''failed to clear confirmation, chatID:%d, msgID:%d, %w''
                 [fmt_d (sint (ChatID (Message query))), fmt_d (sint (MessageID (Message query)))]
                 (Some err)), [edit])
     | None \<Rightarrow>
        (case getCleanMessage (Text (Message query)) of
           Panic \<Rightarrow> (Panic, [edit])
         | Err err \<Rightarrow> (Err (Errorf ''failed to get clean message: %w'' [] (Some err)), [edit])
         | Ok cleanMsg \<Rightarrow>
            (case outcome w (Bot_UpdateSpam cleanMsg) of
               Some err \<Rightarrow> (Err (Errorf ''failed to update spam for %q: %w'' [cleanMsg] (Some err)),
                             [edit, Bot_UpdateSpam cleanMsg])
             | None \<Rightarrow>
                (case parseCallbackData (Data query) of
                   Panic \<Rightarrow> (Panic, [edit, Bot_UpdateSpam cleanMsg])
                 | Err parseErr \<Rightarrow>
                     (Err (Errorf ''failed to parse callback's userID %q: %w'' [Data query]
                            (Some parseErr)), [edit, Bot_UpdateSpam cleanMsg])
                 | Ok (userID, msgID) \<Rightarrow>
                     if trainingMode a
                     then (case run_state (deleteAndBan w a query userID msgID)
                                  [edit, Bot_UpdateSpam cleanMsg] of
                             (banned, t) \<Rightarrow>
                               ((case banned of
                                   Panic \<Rightarrow> Panic
                                 | Err err \<Rightarrow> Err (Errorf ''failed to ban user %d: %w''
                                                     [fmt_d (sint userID)] (Some err))
                                 | Ok u \<Rightarrow> Ok ()), t))
                     else (Ok (), [edit, Bot_UpdateSpam cleanMsg])))))"
  by (auto simp: callbackBanConfirmed_def Let_def split: option.splits result.splits prod.splits)


lemma forwarded_is_forward: "ForwardSenderName forwarded \<noteq> [] \<or> ForwardFrom forwarded \<noteq> None"
  by (simp add: forwarded_def)

text \<open>
  Claim C3, as amended. For every forwarded message whose correlated record has a non-empty
  username that is on the super-user list, MsgHandler returns an error and makes no call that
  changes anything: no RemoveApprovedUser, no send, no UpdateSpam, no delete, no ban.
\<close>

theorem MsgHandler_super_user_protected:
  assumes "ForwardSenderName msg \<noteq> [] \<or> ForwardFrom msg \<noteq> None"
    and "locator_Message w (Text msg) = Some info"
    and "UserName info \<noteq> []"
    and "superUsers_IsSuper w (UserName info)"
  shows "(\<exists>e. result_of (MsgHandler w a msg) = Err e)
    \<and> filter mutation (trace_of (MsgHandler w a msg)) = []"
  by (simp add: result_of_def trace_of_def MsgHandler_super_run [OF assms])

theorem MsgHandler_super_user_protected_witness:
  "(\<exists>e. result_of (MsgHandler super_world live_admin forwarded) = Err e)
    \<and> filter mutation (trace_of (MsgHandler super_world live_admin forwarded)) = []"
proof -
  have "locator_Message super_world (Text forwarded)
      = Some \<lparr>UserID = 7, UserName = ''bob'', MsgID = 100\<rparr>"
    by (simp add: super_world_def bob_world_def quiet_world_def forwarded_def)
  moreover have "UserName \<lparr>UserID = 7 :: int64, UserName = ''bob'', MsgID = 100 :: goint\<rparr> \<noteq> []"
    by simp
  moreover have "superUsers_IsSuper super_world
      (UserName \<lparr>UserID = 7 :: int64, UserName = ''bob'', MsgID = 100 :: goint\<rparr>)"
    by (simp add: super_world_def)
  ultimately show ?thesis
    by (rule MsgHandler_super_user_protected [OF forwarded_is_forward])
qed

theorem MsgHandler_empty_super_name_counterexample:
  "superUsers_IsSuper nameless_world []
   \<and> locator_Message nameless_world (Text forwarded)
       = Some \<lparr>UserID = 7, UserName = [], MsgID = 100\<rparr>
   \<and> result_of (MsgHandler nameless_world live_admin forwarded) = Ok ()
   \<and> filter mutation (trace_of (MsgHandler nameless_world live_admin forwarded)) =
       [Bot_RemoveApprovedUser 7,
        Helper_send (MessageConfig 2000
          (''**original detection results for  (7)**\<newline>\<newline>**can't get spam info**''
             @ ''\<newline>\<newline>\<newline>*the user banned and message deleted*'')),
        Bot_UpdateSpam ''buy cheap meds'',
        TbAPI_Request (DeleteMessageConfig 1000 100),
        BanUserOrChannel \<lparr>br_duration = PermanentBanDuration, br_userID = 7, br_chatID = 1000,
          br_dry = False, br_training = False\<rparr>]"
proof -
  have found: "locator_Message nameless_world (Text forwarded)
       = Some \<lparr>UserID = 7, UserName = [], MsgID = 100\<rparr>"
    by (simp add: nameless_world_def quiet_world_def forwarded_def)
  have "\<not> (UserName \<lparr>UserID = 7 :: int64, UserName = [], MsgID = 100 :: goint\<rparr> \<noteq> []
      \<and> superUsers_IsSuper nameless_world
           (UserName \<lparr>UserID = 7 :: int64, UserName = [], MsgID = 100 :: goint\<rparr>))"
    by simp
  note run = MsgHandler_found_run [OF forwarded_is_forward found this, of live_admin]
  have seven: "fmt_d 7 = ''7''"
    by code_simp
  show ?thesis
    unfolding result_of_def trace_of_def run
    by (simp add: Let_def nameless_world_def quiet_world_def forwarded_def live_admin_def
        ErrorOrNil_def spamInfoText_of_def seven)
qed

text \<open>
  Claim C7, as amended. When MsgHandler aborts because the correlated username is a
  non-empty name on the super-user list, it returns the error to its caller and sends
  nothing: the two look-ups are the only calls it makes. Reporting the outcome to the admin
  chat is left to the caller.
\<close>

theorem MsgHandler_super_user_silent:
  assumes "ForwardSenderName msg \<noteq> [] \<or> ForwardFrom msg \<noteq> None"
    and "locator_Message w (Text msg) = Some info"
    and "UserName info \<noteq> []"
    and "superUsers_IsSuper w (UserName info)"
  shows "result_of (MsgHandler w a msg) =
      Err (Errorf ''forwarded message is about super-user %s (%d), ignored''
             [UserName info, fmt_d (sint (UserID info))] None)
    \<and> trace_of (MsgHandler w a msg) =
      [Locator_Message (Text msg), SuperUsers_IsSuper (UserName info)]"
  by (simp add: result_of_def trace_of_def MsgHandler_super_run [OF assms])

theorem MsgHandler_super_user_silent_witness:
  "result_of (MsgHandler super_world live_admin forwarded) =
      Err (Errorf ''forwarded message is about super-user %s (%d), ignored'' [''bob'', ''7''] None)
    \<and> trace_of (MsgHandler super_world live_admin forwarded) =
      [Locator_Message ''buy cheap meds'', SuperUsers_IsSuper ''bob'']"
proof -
  have found: "locator_Message super_world (Text forwarded)
      = Some \<lparr>UserID = 7, UserName = ''bob'', MsgID = 100\<rparr>"
    by (simp add: super_world_def bob_world_def quiet_world_def forwarded_def)
  have name: "UserName \<lparr>UserID = 7 :: int64, UserName = ''bob'', MsgID = 100 :: goint\<rparr> \<noteq> []"
    by simp
  have super: "superUsers_IsSuper super_world
      (UserName \<lparr>UserID = 7 :: int64, UserName = ''bob'', MsgID = 100 :: goint\<rparr>)"
    by (simp add: super_world_def)
  have seven: "fmt_d 7 = ''7''"
    by code_simp
  show ?thesis
    using MsgHandler_super_user_silent [OF forwarded_is_forward found name super, of live_admin]
    by (simp add: forwarded_def seven)
qed

theorem MsgHandler_super_user_no_report_counterexample:
  "superUsers_IsSuper super_world ''bob''
   \<and> locator_Message super_world (Text forwarded)
       = Some \<lparr>UserID = 7, UserName = ''bob'', MsgID = 100\<rparr>
   \<and> trace_of (MsgHandler super_world live_admin forwarded) =
       [Locator_Message ''buy cheap meds'', SuperUsers_IsSuper ''bob'']"
  by (simp add: trace_of_def MsgHandler_def Let_def super_world_def bob_world_def quiet_world_def
      forwarded_def)

text \<open>
  Claim C4. Once the record is found, for a user who is not protected and with dry off, the
  removal from the approved list, the notification, the delete and the ban are each made
  whatever the earlier ones answered, and the handler returns the aggregate of their
  failures, in that order (nil when there is none). A failure of UpdateSpam is returned at
  once, alone: the delete and the ban are not made.
\<close>

theorem MsgHandler_collects_failures:
  assumes "ForwardSenderName msg \<noteq> [] \<or> ForwardFrom msg \<noteq> None"
    and "locator_Message w (Text msg) = Some info"
    and "\<not> (UserName info \<noteq> [] \<and> superUsers_IsSuper w (UserName info))"
    and "\<not> dry a"
  shows
    "(let remove = Bot_RemoveApprovedUser (UserID info);
          notify = Helper_send (MessageConfig (adminChatID a)
            (''**original detection results for '' @ fmt_q w (UserName info)
               @ '' ('' @ fmt_d (sint (UserID info)) @ '')**\<newline>\<newline>''
               @ spamInfoText_of w (bot_OnMessage w (Text msg) (UserID info))
               @ ''\<newline>\<newline>\<newline>*the user banned and message deleted*''));
          update = Bot_UpdateSpam (Text msg);
          delete = TbAPI_Request (DeleteMessageConfig (primChatID a) (MsgID info));
          ban = BanUserOrChannel \<lparr>br_duration = PermanentBanDuration, br_userID = UserID info,
                  br_chatID = primChatID a, br_dry = False, br_training = trainingMode a\<rparr>;
          failures =
            (case outcome w remove of
               Some err \<Rightarrow> [Errorf ''failed to remove user %d from approved list: %w''
                               [fmt_d (sint (UserID info))] (Some err)]
             | None \<Rightarrow> [])
            @ (case outcome w notify of
               Some err \<Rightarrow> [Errorf ''failed to send spap detection results to admin chat: %w''
                               [] (Some err)]
             | None \<Rightarrow> [])
            @ (case outcome w delete of
               Some err \<Rightarrow> [Errorf ''failed to delete message %d: %w''
                               [fmt_d (sint (MsgID info))] (Some err)]
             | None \<Rightarrow> [])
            @ (case outcome w ban of
               Some err \<Rightarrow> [Errorf ''failed to ban user %d: %w''
                               [fmt_d (sint (UserID info))] (Some err)]
             | None \<Rightarrow> [])
      in filter mutation (trace_of (MsgHandler w a msg)) =
           [remove, notify, update] @ (if outcome w update = None then [delete, ban] else [])
         \<and> result_of (MsgHandler w a msg) =
           (case outcome w update of
              Some err \<Rightarrow> Err (Errorf ''failed to update spam for %q: %w'' [Text msg] (Some err))
            | None \<Rightarrow> if failures = [] then Ok () else Err (MultiError failures)))"
  unfolding result_of_def trace_of_def MsgHandler_found_run [OF assms(1,2,3)]
  using assms(4)
  by (simp add: Let_def ErrorOrNil_def split: option.splits)

lemma fmt_d_7: "fmt_d 7 = ''7''"
  by code_simp

lemma bob_found:
  "locator_Message bob_world (Text forwarded) = Some \<lparr>UserID = 7, UserName = ''bob'', MsgID = 100\<rparr>"
  by (simp add: bob_world_def quiet_world_def forwarded_def)

lemma bob_not_super:
  "\<not> (UserName \<lparr>UserID = 7 :: int64, UserName = ''bob'', MsgID = 100 :: goint\<rparr> \<noteq> []
      \<and> superUsers_IsSuper bob_world
           (UserName \<lparr>UserID = 7 :: int64, UserName = ''bob'', MsgID = 100 :: goint\<rparr>))"
  by (simp add: bob_world_def quiet_world_def)

theorem MsgHandler_collects_failures_witness:
  "filter mutation (trace_of (MsgHandler failing_world live_admin forwarded)) =
     [Bot_RemoveApprovedUser 7,
      Helper_send (MessageConfig 2000
        (''**original detection results for bob (7)**\<newline>\<newline>**can't get spam info**''
           @ ''\<newline>\<newline>\<newline>*the user banned and message deleted*'')),
      Bot_UpdateSpam ''buy cheap meds'',
      TbAPI_Request (DeleteMessageConfig 1000 100),
      BanUserOrChannel \<lparr>br_duration = PermanentBanDuration, br_userID = 7, br_chatID = 1000,
        br_dry = False, br_training = False\<rparr>]
   \<and> result_of (MsgHandler failing_world live_admin forwarded) =
     Err (MultiError [Errorf ''failed to remove user %d from approved list: %w'' [''7'']
                        (Some (External ''no such user''))])"
proof -
  have found: "locator_Message failing_world (Text forwarded)
      = Some \<lparr>UserID = 7, UserName = ''bob'', MsgID = 100\<rparr>"
    by (simp add: failing_world_def bob_world_def quiet_world_def forwarded_def)
  have plain: "\<not> (UserName \<lparr>UserID = 7 :: int64, UserName = ''bob'', MsgID = 100 :: goint\<rparr> \<noteq> []
      \<and> superUsers_IsSuper failing_world
           (UserName \<lparr>UserID = 7 :: int64, UserName = ''bob'', MsgID = 100 :: goint\<rparr>))"
    by (simp add: failing_world_def bob_world_def quiet_world_def)
  have live: "\<not> dry live_admin"
    by (simp add: live_admin_def)
  show ?thesis
    using MsgHandler_collects_failures [OF forwarded_is_forward found plain live]
    by (simp add: Let_def failing_world_def bob_world_def quiet_world_def forwarded_def
        live_admin_def spamInfoText_of_def fmt_d_7)
qed

text \<open>
  Claim C8, as amended. With dry set, a handled forwarded report (record found, user not
  protected) still removes the user from the approved list and sends the notification, and
  then stops: no sample update, no delete and no ban; it returns the aggregate of the
  failures of those two calls, nil when both succeed. On the deferred-confirmation path
  every ban request handed to the ban executor carries the dry flag of the handler.
\<close>

theorem MsgHandler_dry_run:
  assumes "dry a"
    and "ForwardSenderName msg \<noteq> [] \<or> ForwardFrom msg \<noteq> None"
    and "locator_Message w (Text msg) = Some info"
    and "\<not> (UserName info \<noteq> [] \<and> superUsers_IsSuper w (UserName info))"
  shows
    "(let remove = Bot_RemoveApprovedUser (UserID info);
          notify = Helper_send (MessageConfig (adminChatID a)
            (''**original detection results for '' @ fmt_q w (UserName info)
               @ '' ('' @ fmt_d (sint (UserID info)) @ '')**\<newline>\<newline>''
               @ spamInfoText_of w (bot_OnMessage w (Text msg) (UserID info))
               @ ''\<newline>\<newline>\<newline>*the user banned and message deleted*''));
          failures =
            (case outcome w remove of
               Some err \<Rightarrow> [Errorf ''failed to remove user %d from approved list: %w''
                               [fmt_d (sint (UserID info))] (Some err)]
             | None \<Rightarrow> [])
            @ (case outcome w notify of
               Some err \<Rightarrow> [Errorf ''failed to send spap detection results to admin chat: %w''
                               [] (Some err)]
             | None \<Rightarrow> [])
      in filter mutation (trace_of (MsgHandler w a msg)) = [remove, notify]
         \<and> result_of (MsgHandler w a msg) =
             (if failures = [] then Ok () else Err (MultiError failures)))
     \<and> (\<forall>req. BanUserOrChannel req \<in> set (trace_of (deleteAndBan w a query userID msgID))
            \<longrightarrow> br_dry req)"
proof -
  have "\<forall>req. BanUserOrChannel req \<in> set (trace_of (deleteAndBan w a query userID msgID))
            \<longrightarrow> br_dry req"
    using assms(1) by (auto simp: trace_of_def deleteAndBan_run Let_def split: if_splits)
  moreover have "(let remove = Bot_RemoveApprovedUser (UserID info);
          notify = Helper_send (MessageConfig (adminChatID a)
            (''**original detection results for '' @ fmt_q w (UserName info)
               @ '' ('' @ fmt_d (sint (UserID info)) @ '')**\<newline>\<newline>''
               @ spamInfoText_of w (bot_OnMessage w (Text msg) (UserID info))
               @ ''\<newline>\<newline>\<newline>*the user banned and message deleted*''));
          failures =
            (case outcome w remove of
               Some err \<Rightarrow> [Errorf ''failed to remove user %d from approved list: %w''
                               [fmt_d (sint (UserID info))] (Some err)]
             | None \<Rightarrow> [])
            @ (case outcome w notify of
               Some err \<Rightarrow> [Errorf ''failed to send spap detection results to admin chat: %w''
                               [] (Some err)]
             | None \<Rightarrow> [])
      in filter mutation (trace_of (MsgHandler w a msg)) = [remove, notify]
         \<and> result_of (MsgHandler w a msg) =
             (if failures = [] then Ok () else Err (MultiError failures)))"
    unfolding result_of_def trace_of_def MsgHandler_found_run [OF assms(2,3,4)]
    using assms(1) by (simp add: Let_def ErrorOrNil_def)
  ultimately show ?thesis by blast
qed

theorem MsgHandler_dry_run_witness:
  "filter mutation (trace_of (MsgHandler bob_world dry_admin forwarded)) =
     [Bot_RemoveApprovedUser 7,
      Helper_send (MessageConfig 2000
        (''**original detection results for bob (7)**\<newline>\<newline>**can't get spam info**''
           @ ''\<newline>\<newline>\<newline>*the user banned and message deleted*''))]
   \<and> result_of (MsgHandler bob_world dry_admin forwarded) = Ok ()"
proof -
  have "dry dry_admin"
    by (simp add: dry_admin_def)
  from MsgHandler_dry_run [OF this forwarded_is_forward bob_found bob_not_super]
  show ?thesis
    by (simp add: Let_def bob_world_def quiet_world_def forwarded_def dry_admin_def
        live_admin_def spamInfoText_of_def fmt_d_7)
qed

theorem dry_mutations_counterexample:
  "dry dry_admin
   \<and> Bot_RemoveApprovedUser 7 \<in> set (trace_of (MsgHandler bob_world dry_admin forwarded))
   \<and> TbAPI_Request (DeleteMessageConfig 1000 100)
       \<in> set (trace_of (deleteAndBan bob_world dry_admin confirm_press 7 100))"
  by (simp add: trace_of_def MsgHandler_def deleteAndBan_run Let_def bob_world_def
      quiet_world_def forwarded_def dry_admin_def live_admin_def)



text \<open>The edit of callbackBanConfirmed, written out.\<close>

lemma confirmationEdit_shape:
  "confirmationEdit w query =
     EditMessageTextConfig (ChatID (Message query)) (MessageID (Message query))
       (Text (Message query) @ ''\<newline>\<newline>_ban confirmed by '' @ FromUserName query @ '' in ''
          @ since w (Date (Message query)) @ ''_'')
       [] []"
  by (simp add: confirmationEdit_def Let_def)




text \<open>
  The order of the steps of callbackBanConfirmed. The first call is the edit of the admin
  message: its text with the confirmation appended, and an empty keyboard; no run sends or
  edits anything else. When the edit fails the handler returns that error and goes no
  further. When the edit succeeds and a later step returns an error (extracting the clean
  body, updating the spam samples or parsing the payload), the handler returns an error, and
  the calls it made are the edit and, when the body was extracted, the sample update: the
  edit stays applied. When extracting the body panics, the handler panics with the edit as
  the only call made.
\<close>

lemma callbackBanConfirmed_edit_then_steps:
  "(let edit = Helper_send
        (EditMessageTextConfig (ChatID (Message query)) (MessageID (Message query))
           (Text (Message query) @ ''\<newline>\<newline>_ban confirmed by '' @ FromUserName query @ '' in ''
              @ since w (Date (Message query)) @ ''_'')
           [] [])
    in (\<exists>rest. trace_of (callbackBanConfirmed w a query) = edit # rest)
     \<and> filter sends (trace_of (callbackBanConfirmed w a query)) = [edit]
     \<and> (outcome w edit \<noteq> None \<longrightarrow>
          (\<exists>e. result_of (callbackBanConfirmed w a query) = Err e)
          \<and> trace_of (callbackBanConfirmed w a query) = [edit])
     \<and> (outcome w edit = None
          \<and> ((\<exists>e. getCleanMessage (Text (Message query)) = Err e)
             \<or> (\<exists>cleanMsg. getCleanMessage (Text (Message query)) = Ok cleanMsg
                   \<and> (outcome w (Bot_UpdateSpam cleanMsg) \<noteq> None
                      \<or> (\<exists>e. parseCallbackData (Data query) = Err e)))) \<longrightarrow>
          (\<exists>e. result_of (callbackBanConfirmed w a query) = Err e)
          \<and> trace_of (callbackBanConfirmed w a query) =
              edit # (case getCleanMessage (Text (Message query)) of
                        Ok cleanMsg \<Rightarrow> [Bot_UpdateSpam cleanMsg] | Err e \<Rightarrow> [] | Panic \<Rightarrow> []))
     \<and> (outcome w edit = None \<and> getCleanMessage (Text (Message query)) = Panic \<longrightarrow>
          result_of (callbackBanConfirmed w a query) = Panic
          \<and> trace_of (callbackBanConfirmed w a query) = [edit]))"
  unfolding Let_def confirmationEdit_shape [symmetric]
  by (auto simp: result_of_def trace_of_def callbackBanConfirmed_run deleteAndBan_run Let_def
      split: option.splits result.splits)

text \<open>
  Claim C10 fails on the code. The handler does edit the admin message first, and a later
  step that returns an error makes the handler return an error with the edit left applied
  (the lemma above). But the step that extracts the clean body can panic instead of
  returning an error: on an admin message whose third line starts with "spam detection
  results" (the banned message itself began with these words) the slice bounds of
  getCleanMessage are out of range. The edit has been sent by then; the handler returns no
  error.
\<close>

theorem callbackBanConfirmed_panic_after_edit:
  "Text (Message early_marker_press)
     = ''permanently banned bob\<newline>\<newline>spam detection results: none, buy cheap meds''
   \<and> getCleanMessage (Text (Message early_marker_press)) = Panic
   \<and> result_of (callbackBanConfirmed bob_world live_admin early_marker_press) = Panic
   \<and> trace_of (callbackBanConfirmed bob_world live_admin early_marker_press) =
       [Helper_send (EditMessageTextConfig 2000 56
          (''permanently banned bob\<newline>\<newline>spam detection results: none, buy cheap meds''
             @ ''\<newline>\<newline>_ban confirmed by admin in 1s_'') [] [])]"
proof -
  have panic: "getCleanMessage (Text (Message early_marker_press)) = Panic"
    by (simp add: early_marker_press_def early_marker_report_def getCleanMessage_def slice_def
        strings_HasPrefix_def)
  have sent: "outcome bob_world (Helper_send (confirmationEdit bob_world early_marker_press)) = None"
    by (simp add: bob_world_def quiet_world_def)
  have run: "run_state (callbackBanConfirmed bob_world live_admin early_marker_press) [] =
      (Panic, [Helper_send (confirmationEdit bob_world early_marker_press)])"
    using panic sent by (simp add: callbackBanConfirmed_run Let_def)
  have edit: "confirmationEdit bob_world early_marker_press =
      EditMessageTextConfig 2000 56
        (''permanently banned bob\<newline>\<newline>spam detection results: none, buy cheap meds''
           @ ''\<newline>\<newline>_ban confirmed by admin in 1s_'') [] []"
    by (simp add: confirmationEdit_shape bob_world_def quiet_world_def early_marker_press_def
        early_marker_report_def confirm_press_def report_def)
  have shown: "Text (Message early_marker_press)
     = ''permanently banned bob\<newline>\<newline>spam detection results: none, buy cheap meds''"
    by (simp add: early_marker_press_def early_marker_report_def)
  show ?thesis
    using panic shown unfolding result_of_def trace_of_def run edit by simp
qed

text \<open>
  The payloads on the buttons are the encoded actions: the report carries AskConfirm and
  ShowInfo, the confirmation dialog opened by an AskConfirm press carries Unban and
  ConfirmBan.
\<close>

lemma sendWithUnbanMarkup_buttons:
  "trace_of (sendWithUnbanMarkup w text action userID msgID chatID) =
     [TbAPI_Send (MessageConfigMarkup chatID text
        [[InlineKeyboardButtonData
            ([CHR 0xE2, CHR 0x9B, CHR 0x94, CHR 0xEF, CHR 0xB8, CHR 0x8E, CHR '' ''] @ action)
            (encode AskConfirm userID msgID),
          InlineKeyboardButtonData
            ([CHR 0xEF, CHR 0xB8, CHR 0x8F, CHR 0xE2, CHR 0x9A, CHR 0x91] @ '' info'')
            (encode ShowInfo userID msgID)]])]"
  by (simp add: trace_of_def sendWithUnbanMarkup_def Let_def)

lemma callbackAskBanConfirmation_buttons:
  assumes "Data query = encode AskConfirm userID msgID"
  shows "trace_of (callbackAskBanConfirmation w a query) =
     [Helper_send (EditMessageReplyMarkupConfig (ChatID (Message query)) (MessageID (Message query))
        [[InlineKeyboardButtonData ''Unban for real'' (encode Unban userID msgID),
          InlineKeyboardButtonData (if trainingMode a then ''Confirm ban'' else ''Keep it banned'')
            (encode ConfirmBan userID msgID)]])]"
proof -
  have "Data query \<noteq> []"
    using assms by (simp add: sprintf_payload_def confirmationPrefix_def)
  then show ?thesis
    using assms by (simp add: trace_of_def callbackAskBanConfirmation_def Let_def)
qed

section \<open>Ban requests and super-users\<close>

lemma trace_InlineCallbackHandler:
  "trace_of (InlineCallbackHandler w a query) =
     (if ChatID (Message query) \<noteq> adminChatID a then []
      else case callbackAction (Data query) of
        AskConfirm \<Rightarrow> trace_of (callbackAskBanConfirmation w a query)
      | ConfirmBan \<Rightarrow> trace_of (callbackBanConfirmed w a query)
      | ShowInfo \<Rightarrow> trace_of (callbackShowInfo w a query)
      | Unban \<Rightarrow> trace_of (callbackUnbanConfirmed w a query))"
  by (simp add: trace_of_def InlineCallbackHandler_def split: action.splits prod.splits)

lemma callbackAskBanConfirmation_no_ban:
  "BanUserOrChannel req \<notin> set (trace_of (callbackAskBanConfirmation w a query))"
  by (simp add: trace_of_def callbackAskBanConfirmation_def Let_def)

lemma showInfo_rest_no_ban:
  "BanUserOrChannel req \<notin> set (snd (run_state (showInfo_rest w query lines userID) []))"
  by (auto simp: showInfo_rest_def Let_def split: option.splits list.splits)

lemma callbackShowInfo_no_ban:
  "BanUserOrChannel req \<notin> set (trace_of (callbackShowInfo w a query))"
  by (auto simp: trace_of_def callbackShowInfo_def Let_def showInfo_rest_no_ban
      split: result.splits)

lemma callbackUnbanConfirmed_no_ban:
  "BanUserOrChannel req \<notin> set (trace_of (callbackUnbanConfirmed w a query))"
  by (auto simp: trace_of_def callbackUnbanConfirmed_def Let_def
      split: option.splits result.splits)

lemma ReportBan_no_ban:
  "BanUserOrChannel req \<notin> set (trace_of (ReportBan w a banUserStr msg))"
  by (simp add: trace_of_def ReportBan_def sendWithUnbanMarkup_def Let_def)

lemma deleteAndBan_bans:
  "BanUserOrChannel req \<in> set (snd (run_state (deleteAndBan w a query userID msgID) t)) \<Longrightarrow>
   BanUserOrChannel req \<in> set t
   \<or> (br_userID req = userID
      \<and> \<not> (locator_UserNameByID w userID \<noteq> []
            \<and> superUsers_IsSuper w (locator_UserNameByID w userID)))"
  by (auto simp: deleteAndBan_run Let_def split: if_splits)

lemma callbackBanConfirmed_bans:
  assumes "BanUserOrChannel req \<in> set (trace_of (callbackBanConfirmed w a query))"
  shows "\<not> (locator_UserNameByID w (br_userID req) \<noteq> []
            \<and> superUsers_IsSuper w (locator_UserNameByID w (br_userID req)))"
  using assms
  by (auto simp: trace_of_def callbackBanConfirmed_run deleteAndBan_run Let_def
      split: option.splits result.splits if_splits prod.splits)

lemma MsgHandler_bans:
  assumes "BanUserOrChannel req \<in> set (trace_of (MsgHandler w a msg))"
  shows "\<exists>info. locator_Message w (Text msg) = Some info \<and> br_userID req = UserID info
           \<and> \<not> (UserName info \<noteq> [] \<and> superUsers_IsSuper w (UserName info))"
proof (cases "ForwardSenderName msg = [] \<and> ForwardFrom msg = None")
  case True
  with assms show ?thesis by (simp add: trace_of_def MsgHandler_def)
next
  case fw: False
  show ?thesis
  proof (cases "locator_Message w (Text msg)")
    case None
    with assms fw show ?thesis by (auto simp: trace_of_def MsgHandler_def Let_def)
  next
    case (Some info)
    show ?thesis
    proof (cases "UserName info \<noteq> [] \<and> superUsers_IsSuper w (UserName info)")
      case True
      with assms fw Some show ?thesis
        using MsgHandler_super_run [of msg w info a] by (auto simp: trace_of_def)
    next
      case False
      from fw have "ForwardSenderName msg \<noteq> [] \<or> ForwardFrom msg \<noteq> None" by simp
      note run = MsgHandler_found_run [OF this Some False, of a]
      from assms have "br_userID req = UserID info"
        unfolding trace_of_def run
        by (auto simp: Let_def split: if_splits option.splits)
      with Some False show ?thesis by blast
    qed
  qed
qed


text \<open>
  Claim C9. No entry point of the module hands the ban executor a request for a user whose
  looked-up username is a non-empty name on the super-user list. A request made by MsgHandler
  is for the user of the record the locator found for the forwarded text, whose username is
  empty or not on the list; a request made by InlineCallbackHandler (by deleteAndBan, on the
  ConfirmBan branch) is for a user whose name, as the locator gives it for the id, is empty
  or not on the list; ReportBan makes none. For such a user MsgHandler makes no call that
  changes anything, and deleteAndBan makes one: the delete of the original message.
\<close>

theorem no_ban_for_super_user:
  "(\<forall>req. BanUserOrChannel req \<in> set (trace_of (MsgHandler w a msg)) \<longrightarrow>
       (\<exists>info. locator_Message w (Text msg) = Some info \<and> br_userID req = UserID info
          \<and> \<not> (UserName info \<noteq> [] \<and> superUsers_IsSuper w (UserName info))))
   \<and> (\<forall>req. BanUserOrChannel req \<in> set (trace_of (InlineCallbackHandler w a query)) \<longrightarrow>
       \<not> (locator_UserNameByID w (br_userID req) \<noteq> []
          \<and> superUsers_IsSuper w (locator_UserNameByID w (br_userID req))))
   \<and> (\<forall>req. BanUserOrChannel req \<notin> set (trace_of (ReportBan w a banUserStr banned)))
   \<and> ((ForwardSenderName msg \<noteq> [] \<or> ForwardFrom msg \<noteq> None)
        \<and> locator_Message w (Text msg) = Some found
        \<and> UserName found \<noteq> [] \<and> superUsers_IsSuper w (UserName found) \<longrightarrow>
       filter mutation (trace_of (MsgHandler w a msg)) = [])
   \<and> (locator_UserNameByID w userID \<noteq> []
        \<and> superUsers_IsSuper w (locator_UserNameByID w userID) \<longrightarrow>
       filter mutation (trace_of (deleteAndBan w a query userID msgID)) =
         [TbAPI_Request (DeleteMessageConfig (primChatID a) msgID)])"
proof (intro conjI allI impI)
  fix req
  assume "BanUserOrChannel req \<in> set (trace_of (MsgHandler w a msg))"
  then show "\<exists>info. locator_Message w (Text msg) = Some info \<and> br_userID req = UserID info
          \<and> \<not> (UserName info \<noteq> [] \<and> superUsers_IsSuper w (UserName info))"
    by (rule MsgHandler_bans)
next
  fix req
  assume "BanUserOrChannel req \<in> set (trace_of (InlineCallbackHandler w a query))"
  then have "BanUserOrChannel req \<in> set (trace_of (callbackBanConfirmed w a query))"
    by (auto simp: trace_InlineCallbackHandler callbackAskBanConfirmation_no_ban
        callbackShowInfo_no_ban callbackUnbanConfirmed_no_ban split: if_splits action.splits)
  then show "\<not> (locator_UserNameByID w (br_userID req) \<noteq> []
          \<and> superUsers_IsSuper w (locator_UserNameByID w (br_userID req)))"
    by (rule callbackBanConfirmed_bans)
next
  fix req
  show "BanUserOrChannel req \<notin> set (trace_of (ReportBan w a banUserStr banned))"
    by (rule ReportBan_no_ban)
next
  assume "(ForwardSenderName msg \<noteq> [] \<or> ForwardFrom msg \<noteq> None)
        \<and> locator_Message w (Text msg) = Some found
        \<and> UserName found \<noteq> [] \<and> superUsers_IsSuper w (UserName found)"
  then show "filter mutation (trace_of (MsgHandler w a msg)) = []"
    using MsgHandler_super_run [of msg w found a] by (simp add: trace_of_def)
next
  assume "locator_UserNameByID w userID \<noteq> []
        \<and> superUsers_IsSuper w (locator_UserNameByID w userID)"
  then show "filter mutation (trace_of (deleteAndBan w a query userID msgID)) =
         [TbAPI_Request (DeleteMessageConfig (primChatID a) msgID)]"
    by (simp add: trace_of_def deleteAndBan_run Let_def)
qed

theorem no_ban_for_super_user_witness:
  "filter mutation (trace_of (MsgHandler super_world training_admin forwarded)) = []
   \<and> filter mutation (trace_of (deleteAndBan super_world training_admin confirm_press 7 100)) =
       [TbAPI_Request (DeleteMessageConfig 1000 100)]"
proof -
  have msg: "(ForwardSenderName forwarded \<noteq> [] \<or> ForwardFrom forwarded \<noteq> None)
        \<and> locator_Message super_world (Text forwarded)
            = Some \<lparr>UserID = 7, UserName = ''bob'', MsgID = 100\<rparr>
        \<and> UserName \<lparr>UserID = 7 :: int64, UserName = ''bob'', MsgID = 100 :: goint\<rparr> \<noteq> []
        \<and> superUsers_IsSuper super_world
            (UserName \<lparr>UserID = 7 :: int64, UserName = ''bob'', MsgID = 100 :: goint\<rparr>)"
    by (simp add: super_world_def bob_world_def quiet_world_def forwarded_def)
  have press: "locator_UserNameByID super_world 7 \<noteq> []
        \<and> superUsers_IsSuper super_world (locator_UserNameByID super_world 7)"
    by (simp add: super_world_def bob_world_def quiet_world_def)
  from no_ban_for_super_user [of super_world training_admin forwarded confirm_press _ _
      "\<lparr>UserID = 7, UserName = ''bob'', MsgID = 100\<rparr>" 7 100] msg press
  show ?thesis
    by (simp add: training_admin_def live_admin_def)
qed

end
